theory Spec2Isabelle
  imports Main "HOL-Library.AList"
begin

section \<open>Values, exceptions and effects\<close>

text \<open>
  The gateway of \<^verbatim>\<open>src/src/mcp_hub/backend.py\<close> handles dynamically typed values: message
  contents, YAML fields, JSON arguments and the entries of the status report. They are
  modelled by one datatype. A Python \<^verbatim>\<open>dict\<close> keeps insertion order, so it is an
  association list.
\<close>

datatype pyval =
    PNone
  | PBool bool
  | PInt int
  | PStr string
  | PList "pyval list"
  | PDict "(string \<times> pyval) list"

text \<open>Python truthiness, as used by \<^verbatim>\<open>if msg.content\<close> and \<^verbatim>\<open>active_servers.get(name, False)\<close>.\<close>

fun truthy :: "pyval \<Rightarrow> bool" where
  "truthy PNone = False"
| "truthy (PBool b) = b"
| "truthy (PInt n) = (n \<noteq> 0)"
| "truthy (PStr s) = (s \<noteq> [])"
| "truthy (PList xs) = (xs \<noteq> [])"
| "truthy (PDict d) = (d \<noteq> [])"

text \<open>
  Every \<^verbatim>\<open>raise\<close> of the source is a value: the class of the exception and the text
  that \<^verbatim>\<open>str(e)\<close> gives. \<open>ExternalError\<close> stands for whatever a collaborator (a tool
  server session, the model provider, the process launcher) raises.
\<close>

datatype exn_class =
    KeyError | IndexError | ValueError | TypeError | AttributeError
  | JSONDecodeError | ExternalError

datatype exn = Exn exn_class string

fun str_exn :: "exn \<Rightarrow> string" where
  "str_exn (Exn c m) = m"

text \<open>\<^verbatim>\<open>d[key]\<close> on a dict: a missing key raises \<^verbatim>\<open>KeyError\<close>, whose text is the repr of the key.\<close>

definition getitem :: "(string \<times> pyval) list \<Rightarrow> string \<Rightarrow> exn + pyval" where
  "getitem d k =
     (case map_of d k of
        None \<Rightarrow> Inl (Exn KeyError ([CHR 0x27] @ k @ [CHR 0x27]))
      | Some v \<Rightarrow> Inr v)"

text \<open>\<^verbatim>\<open>d.get(key, default)\<close>.\<close>

definition dict_get :: "(string \<times> pyval) list \<Rightarrow> string \<Rightarrow> pyval \<Rightarrow> pyval" where
  "dict_get d k dflt = (case map_of d k of None \<Rightarrow> dflt | Some v \<Rightarrow> v)"

section \<open>Namespaced tool identifiers\<close>

text \<open>
  Line 107 builds the identifier with \<^verbatim>\<open>f"{name}:{tool.name}"\<close>, line 170 builds it again
  for the result, and line 141 takes it apart with \<^verbatim>\<open>full_tool_name.split(":", 1)\<close>.
\<close>

definition namespaced :: "string \<Rightarrow> string \<Rightarrow> string" where
  "namespaced server_name tool_name = server_name @ '':'' @ tool_name"

text \<open>
  \<^verbatim>\<open>s.split(sep, 1)\<close> for a one-character separator: the whole string when the separator does
  not occur, otherwise what is before its first occurrence and what is after it.
\<close>

definition split1 :: "char \<Rightarrow> string \<Rightarrow> string list" where
  "split1 sep s =
     (case dropWhile (\<lambda>c. c \<noteq> sep) s of
        [] \<Rightarrow> [s]
      | _ # rest \<Rightarrow> [takeWhile (\<lambda>c. c \<noteq> sep) s, rest])"

text \<open>
  The tuple assignment \<^verbatim>\<open>server_name, tool_name = full_tool_name.split(":", 1)\<close>: a list
  that does not have two elements raises \<^verbatim>\<open>ValueError\<close>.
\<close>

definition parse_tool_name :: "string \<Rightarrow> exn + (string \<times> string)" where
  "parse_tool_name full_tool_name =
     (case split1 (CHR '':'') full_tool_name of
        [server_name, tool_name] \<Rightarrow> Inr (server_name, tool_name)
      | _ \<Rightarrow> Inl (Exn ValueError ''not enough values to unpack (expected 2, got 1)''))"

section \<open>Collaborators: tool-server sessions and the model capability\<close>

text \<open>
  A tool as \<^verbatim>\<open>session.list_tools()\<close> reports it, and the response of
  \<^verbatim>\<open>session.call_tool\<close>. The attribute \<^verbatim>\<open>structuredContent\<close> of the response may be
  missing from the object, be \<^verbatim>\<open>None\<close>, or be a dict; \<open>rendered\<close> is what \<^verbatim>\<open>str\<close>
  gives for the whole response object.
\<close>

record tool =
  tool_name :: string
  tool_description :: pyval
  tool_inputSchema :: pyval

datatype structured = NoAttribute | IsNone | IsDict "(string \<times> pyval) list"

record call_tool_result =
  structuredContent :: structured
  rendered :: string

text \<open>
  A connected session, seen from one request: the outcome of its catalog query and of a
  tool execution. Either may raise.
\<close>

record session =
  list_tools :: "exn + tool list"
  call_tool :: "string \<Rightarrow> pyval \<Rightarrow> exn + call_tool_result"

text \<open>One entry of \<^verbatim>\<open>available_tools\<close> (lines 104-111).\<close>

record tool_spec =
  spec_type :: string
  fn_name :: string
  fn_description :: pyval
  fn_parameters :: pyval

type_synonym turn = "(string \<times> pyval) list"

text \<open>The keyword arguments of \<^verbatim>\<open>chat_client.chat.completions.create\<close>.\<close>

record chat_request =
  req_model :: string
  req_messages :: "turn list"
  req_tools :: "tool_spec list option"
  req_tool_choice :: "string option"

record tool_call =
  call_name :: string
  call_arguments :: string

record message =
  content :: pyval
  tool_calls :: "tool_call list option"

text \<open>A completion is the list of its \<^verbatim>\<open>choices[i].message\<close>. The client may raise.\<close>

type_synonym completion = "message list"
type_synonym chat_client = "chat_request \<Rightarrow> exn + completion"

text \<open>
  What the source takes from outside the repository: \<^verbatim>\<open>json.loads\<close>, the \<^verbatim>\<open>repr\<close> of
  a value that is not a string, and the launch of a tool server (\<^verbatim>\<open>stdio_client\<close>,
  \<^verbatim>\<open>ClientSession\<close> and \<^verbatim>\<open>session.initialize()\<close> of lines 55-58) from its command,
  arguments and working directory. The outcome of a launch is not determined by these
  three alone, so \<open>launch\<close> also takes the name under which the attempt is made.
\<close>

record runtime =
  json_loads :: "string \<Rightarrow> exn + pyval"
  py_repr :: "pyval \<Rightarrow> string"
  launch :: "string \<Rightarrow> pyval \<Rightarrow> pyval \<Rightarrow> pyval \<Rightarrow> exn + session"

text \<open>\<^verbatim>\<open>str(v)\<close>, as an f-string applies it.\<close>

fun py_str :: "runtime \<Rightarrow> pyval \<Rightarrow> string" where
  "py_str rt (PStr s) = s"
| "py_str rt PNone = ''None''"
| "py_str rt (PBool b) = (if b then ''True'' else ''False'')"
| "py_str rt v = py_repr rt v"

subsection \<open>Calls to collaborators, recorded\<close>

text \<open>
  The claims count how often the model and the tools are invoked, so a computation
  returns, next to its result or exception, the calls it made, in order.
\<close>

datatype event =
    ListTools string
  | ModelCall chat_request
  | CallTool string string pyval

type_synonym 'a traced = "event list \<times> (exn + 'a)"

definition ret :: "'a \<Rightarrow> 'a traced" where
  "ret x = ([], Inr x)"

definition pure_t :: "exn + 'a \<Rightarrow> 'a traced" where
  "pure_t r = ([], r)"

definition perform :: "event \<Rightarrow> exn + 'a \<Rightarrow> 'a traced" where
  "perform ev r = ([ev], r)"

definition bind_t :: "'a traced \<Rightarrow> ('a \<Rightarrow> 'b traced) \<Rightarrow> 'b traced" where
  "bind_t m f =
     (case m of
        (t, Inl e) \<Rightarrow> (t, Inl e)
      | (t, Inr x) \<Rightarrow> (case f x of (t', r) \<Rightarrow> (t @ t', r)))"

definition model_calls :: "event list \<Rightarrow> chat_request list" where
  "model_calls t = concat (map (\<lambda>ev. case ev of ModelCall r \<Rightarrow> [r] | _ \<Rightarrow> []) t)"

definition tool_invocations :: "event list \<Rightarrow> (string \<times> string \<times> pyval) list" where
  "tool_invocations t =
     concat (map (\<lambda>ev. case ev of CallTool s n a \<Rightarrow> [(s, n, a)] | _ \<Rightarrow> []) t)"

section \<open>The client of the tool servers\<close>

record MCPClient =
  sessions :: "(string \<times> session) list"
  active_servers :: "(string \<times> pyval) list"

text \<open>
  \<^verbatim>\<open>connect_to_server\<close> (lines 51-62). The two dicts are written only after the launch and
  the handshake have succeeded; an assignment to an existing key keeps the key's place.
\<close>

definition connect_to_server ::
  "runtime \<Rightarrow> MCPClient \<Rightarrow> string \<Rightarrow> pyval \<Rightarrow> pyval \<Rightarrow> pyval \<Rightarrow> exn + MCPClient" where
  "connect_to_server rt self name command args cwd =
     (case launch rt name command args cwd of
        Inl e \<Rightarrow> Inl e
      | Inr session \<Rightarrow>
          Inr (self\<lparr>sessions := AList.update name session (sessions self),
                    active_servers := AList.update name (PBool True) (active_servers self)\<rparr>))"

text \<open>A handle is Running when it has a session and its flag in \<^verbatim>\<open>active_servers\<close> is true.\<close>

definition is_active :: "MCPClient \<Rightarrow> string \<Rightarrow> bool" where
  "is_active self name = truthy (dict_get (active_servers self) name (PBool False))"

definition running :: "MCPClient \<Rightarrow> string \<Rightarrow> bool" where
  "running self name = (map_of (sessions self) name \<noteq> None \<and> is_active self name)"

text \<open>
  The flag is set whenever a session is stored (lines 60-61) and nothing clears it: in
  every state the client reaches, each server that has a session is active.
\<close>

definition consistent :: "MCPClient \<Rightarrow> bool" where
  "consistent self = list_all (is_active self) (map fst (sessions self))"

subsection \<open>Tool discovery\<close>

record descriptor =
  d_server :: string
  d_tool_name :: string
  d_description :: pyval

definition describe :: "string \<Rightarrow> tool \<Rightarrow> descriptor" where
  "describe name t =
     \<lparr>d_server = name, d_tool_name = tool_name t, d_description = tool_description t\<rparr>"

text \<open>The loop of \<^verbatim>\<open>list_all_tools\<close> (lines 78-87); \<open>tools\<close> is the list built so far.\<close>

fun list_loop ::
  "MCPClient \<Rightarrow> (string \<times> session) list \<Rightarrow> descriptor list \<Rightarrow> descriptor list traced" where
  "list_loop self [] tools = ret tools"
| "list_loop self ((name, session) # rest) tools =
     (if \<not> is_active self name then list_loop self rest tools
      else bind_t (perform (ListTools name) (list_tools session))
             (\<lambda>response. list_loop self rest (tools @ map (describe name) response)))"

definition list_all_tools :: "MCPClient \<Rightarrow> descriptor list traced" where
  "list_all_tools self = list_loop self (sessions self) []"

subsection \<open>Query processing\<close>

definition function_spec :: "string \<Rightarrow> tool \<Rightarrow> tool_spec" where
  "function_spec name t =
     \<lparr>spec_type = ''function'',
      fn_name = namespaced name (tool_name t),
      fn_description = tool_description t,
      fn_parameters = tool_inputSchema t\<rparr>"

text \<open>The loop of lines 99-111; \<open>available_tools\<close> is the list built so far.\<close>

fun schema_loop ::
  "MCPClient \<Rightarrow> (string \<times> session) list \<Rightarrow> tool_spec list \<Rightarrow> tool_spec list traced" where
  "schema_loop self [] available_tools = ret available_tools"
| "schema_loop self ((name, session) # rest) available_tools =
     (if \<not> is_active self name then schema_loop self rest available_tools
      else bind_t (perform (ListTools name) (list_tools session))
             (\<lambda>response.
                schema_loop self rest (available_tools @ map (function_spec name) response)))"

definition system_turn :: turn where
  "system_turn =
     [(''role'', PStr ''system''),
      (''content'', PStr (''Before answering, think step by step and explain: ''
         @ ''Do you need to call a tool? Which one and why? ''
         @ ''Then either call the tool or answer directly.''))]"

definition phase1_request :: "string \<Rightarrow> turn list \<Rightarrow> tool_spec list \<Rightarrow> chat_request" where
  "phase1_request model_id messages available_tools =
     \<lparr>req_model = model_id,
      req_messages = messages @ [system_turn],
      req_tools = Some available_tools,
      req_tool_choice = Some ''auto''\<rparr>"

text \<open>\<^verbatim>\<open>completion.choices[0].message\<close>.\<close>

definition first_choice :: "completion \<Rightarrow> exn + message" where
  "first_choice choices =
     (case choices of
        [] \<Rightarrow> Inl (Exn IndexError ''list index out of range'')
      | msg # _ \<Rightarrow> Inr msg)"

text \<open>
  \<^verbatim>\<open>msg.tool_calls[0]\<close> when \<^verbatim>\<open>msg.tool_calls\<close> is true, that is neither \<^verbatim>\<open>None\<close> nor an
  empty list; \<open>None\<close> when it is false.
\<close>

definition first_tool_call :: "message \<Rightarrow> tool_call option" where
  "first_tool_call msg = (case tool_calls msg of Some (tool_call # _) \<Rightarrow> Some tool_call | _ \<Rightarrow> None)"

text \<open>\<^verbatim>\<open>messages[-1]['content']\<close>.\<close>

definition last_content :: "turn list \<Rightarrow> exn + pyval" where
  "last_content messages =
     (case messages of
        [] \<Rightarrow> Inl (Exn IndexError ''list index out of range'')
      | _ # _ \<Rightarrow> getitem (last messages) ''content'')"

text \<open>
  Lines 151-155. The test \<^verbatim>\<open>"result" in tool_result.structuredContent\<close> raises
  \<^verbatim>\<open>TypeError\<close> when the attribute is \<^verbatim>\<open>None\<close>.
\<close>

datatype tool_value = Field pyval | Whole call_tool_result

definition extract_result :: "call_tool_result \<Rightarrow> exn + tool_value" where
  "extract_result tool_result =
     (case structuredContent tool_result of
        NoAttribute \<Rightarrow> Inr (Whole tool_result)
      | IsNone \<Rightarrow> Inl (Exn TypeError (''argument of type '' @ [CHR 0x27] @ ''NoneType''
                        @ [CHR 0x27] @ '' is not iterable''))
      | IsDict d \<Rightarrow>
          (case map_of d ''result'' of
             Some v \<Rightarrow> Inr (Field v)
           | None \<Rightarrow> Inr (Whole tool_result)))"

fun str_value :: "runtime \<Rightarrow> tool_value \<Rightarrow> string" where
  "str_value rt (Field v) = py_str rt v"
| "str_value rt (Whole r) = rendered r"

text \<open>The f-string of lines 158-162, with its line breaks and indentation.\<close>

definition final_prompt :: "string \<Rightarrow> string \<Rightarrow> string" where
  "final_prompt question result =
     [CHR 0x0A] @ ''            The user asked: '' @ [CHR 0x22] @ question @ [CHR 0x22]
     @ [CHR 0x0A] @ ''            The tool returned: '' @ [CHR 0x22] @ result @ [CHR 0x22]
     @ [CHR 0x0A] @ ''            Please summarize and respond naturally.''
     @ [CHR 0x0A] @ ''            ''"

definition phase2_request :: "string \<Rightarrow> string \<Rightarrow> chat_request" where
  "phase2_request model_id prompt =
     \<lparr>req_model = model_id,
      req_messages = [[(''role'', PStr ''user''), (''content'', PStr prompt)]],
      req_tools = None,
      req_tool_choice = None\<rparr>"

record dispatch_result =
  result_text :: pyval
  tool_used :: "string option"

text \<open>Lines 138-170: the branch taken when \<^verbatim>\<open>msg.tool_calls\<close> is true.\<close>

definition tool_branch ::
  "runtime \<Rightarrow> MCPClient \<Rightarrow> chat_client \<Rightarrow> string \<Rightarrow> turn list \<Rightarrow> tool_call
     \<Rightarrow> dispatch_result traced" where
  "tool_branch rt self chat_client model_id messages tool_call =
     bind_t (pure_t (parse_tool_name (call_name tool_call))) (\<lambda>(server_name, tool_name).
     bind_t (pure_t (json_loads rt (call_arguments tool_call))) (\<lambda>tool_args.
       case map_of (sessions self) server_name of
         None \<Rightarrow>
           ret \<lparr>result_text = PStr (''Error: server '' @ [CHR 0x27] @ server_name @ [CHR 0x27]
                               @ '' not connected.''),
                tool_used = None\<rparr>
       | Some session \<Rightarrow>
           bind_t (perform (CallTool server_name tool_name tool_args)
                     (call_tool session tool_name tool_args)) (\<lambda>tool_result.
           bind_t (pure_t (extract_result tool_result)) (\<lambda>result.
           bind_t (pure_t (last_content messages)) (\<lambda>question.
           bind_t (perform
                     (ModelCall (phase2_request model_id
                        (final_prompt (py_str rt question) (str_value rt result))))
                     (chat_client (phase2_request model_id
                        (final_prompt (py_str rt question) (str_value rt result)))))
                  (\<lambda>final_completion.
           bind_t (pure_t (first_choice final_completion)) (\<lambda>final_msg.
             ret \<lparr>result_text = content final_msg,
                  tool_used = Some (namespaced server_name tool_name)\<rparr>)))))))"

text \<open>Lines 131-172: what \<^verbatim>\<open>process_query\<close> does with the Phase-1 reply \<open>msg\<close>.\<close>

definition handle_reply ::
  "runtime \<Rightarrow> MCPClient \<Rightarrow> chat_client \<Rightarrow> string \<Rightarrow> turn list \<Rightarrow> message
     \<Rightarrow> dispatch_result traced" where
  "handle_reply rt self chat_client model_id messages msg =
     (if truthy (content msg) \<and> first_tool_call msg = None then
        ret \<lparr>result_text = content msg, tool_used = None\<rparr>
      else
        (case first_tool_call msg of
           Some tool_call \<Rightarrow> tool_branch rt self chat_client model_id messages tool_call
         | None \<Rightarrow> ret \<lparr>result_text = PStr ''No response from model.'', tool_used = None\<rparr>))"

text \<open>\<^verbatim>\<open>process_query\<close> (lines 93-172).\<close>

definition process_query ::
  "runtime \<Rightarrow> MCPClient \<Rightarrow> chat_client \<Rightarrow> string \<Rightarrow> turn list \<Rightarrow> dispatch_result traced" where
  "process_query rt self chat_client model_id messages =
     bind_t (schema_loop self (sessions self) []) (\<lambda>available_tools.
     bind_t (perform (ModelCall (phase1_request model_id messages available_tools))
               (chat_client (phase1_request model_id messages available_tools)))
            (\<lambda>completion.
     bind_t (pure_t (first_choice completion)) (\<lambda>msg.
       handle_reply rt self chat_client model_id messages msg)))"

section \<open>Removing reasoning traces\<close>

text \<open>
  \<^verbatim>\<open>remove_reasoning_thoughts\<close> (lines 239-263) applies ten regular-expression
  substitutions and then \<^verbatim>\<open>strip()\<close>. The patterns use literal characters, character
  classes, an optional character, and greedy and lazy repetition of a class; a pattern is
  a list of such atoms. A \<open>char\<close> stands for a code point below 256, where the flag
  \<^verbatim>\<open>(?i)\<close> only identifies the two cases of an ASCII letter; the typographic apostrophe
  of patterns 7 and 8 is outside that range and matches no such character.
\<close>

datatype cset = Only "char list" | Except "char list"

fun accepts :: "cset \<Rightarrow> char \<Rightarrow> bool" where
  "accepts (Only cs) c = (c \<in> set cs)"
| "accepts (Except cs) c = (c \<notin> set cs)"

datatype atom = One cset | Maybe cset | Many cset | Few cset

type_synonym regex = "atom list"

text \<open>
  Backtracking match of a pattern at the start of a string, with the priorities of
  Python's \<^verbatim>\<open>re\<close>: \<open>Maybe\<close> (\<^verbatim>\<open>?\<close>) and \<open>Many\<close> (\<^verbatim>\<open>*\<close>) take a character first and give
  it back if the rest fails, \<open>Few\<close> (\<^verbatim>\<open>*?\<close>) tries the rest first. The result is what
  follows the match.
\<close>

fun match_here :: "regex \<Rightarrow> string \<Rightarrow> string option" where
  "match_here [] s = Some s"
| "match_here (One p # r) [] = None"
| "match_here (One p # r) (c # cs) = (if accepts p c then match_here r cs else None)"
| "match_here (Maybe p # r) [] = match_here r []"
| "match_here (Maybe p # r) (c # cs) =
     (if accepts p c then
        (case match_here r cs of Some t \<Rightarrow> Some t | None \<Rightarrow> match_here r (c # cs))
      else match_here r (c # cs))"
| "match_here (Many p # r) [] = match_here r []"
| "match_here (Many p # r) (c # cs) =
     (if accepts p c then
        (case match_here (Many p # r) cs of Some t \<Rightarrow> Some t | None \<Rightarrow> match_here r (c # cs))
      else match_here r (c # cs))"
| "match_here (Few p # r) [] = match_here r []"
| "match_here (Few p # r) (c # cs) =
     (case match_here r (c # cs) of
        Some t \<Rightarrow> Some t
      | None \<Rightarrow> if accepts p c then match_here (Few p # r) cs else None)"

text \<open>
  \<^verbatim>\<open>re.sub(pattern, repl, s)\<close>: the leftmost match is replaced and the scan goes on after
  it. Each pattern of the source has a mandatory character, so it never matches the empty
  string (lemma \<open>match_here_shorter\<close>); an empty match is left alone here.
\<close>

fun re_sub :: "regex \<Rightarrow> string \<Rightarrow> string \<Rightarrow> string" where
  "re_sub r repl [] = []"
| "re_sub r repl (c # cs) =
     (case match_here r (c # cs) of
        None \<Rightarrow> c # re_sub r repl cs
      | Some rest \<Rightarrow>
          if length rest < length (c # cs) then repl @ re_sub r repl rest
          else c # re_sub r repl cs)"

definition lit :: "string \<Rightarrow> regex" where
  "lit s = map (\<lambda>c. One (Only [c])) s"

definition other_case :: "char \<Rightarrow> char list" where
  "other_case c =
     (case map_of (zip ''abcdefghijklmnopqrstuvwxyz'' ''ABCDEFGHIJKLMNOPQRSTUVWXYZ''
                   @ zip ''ABCDEFGHIJKLMNOPQRSTUVWXYZ'' ''abcdefghijklmnopqrstuvwxyz'') c of
        None \<Rightarrow> []
      | Some d \<Rightarrow> [d])"

definition ilit :: "string \<Rightarrow> regex" where
  "ilit s = map (\<lambda>c. One (Only (c # other_case c))) s"

definition any_char :: cset where
  "any_char = Except []"

definition newline :: char where
  "newline = CHR 0x0A"

definition patterns :: "regex list" where
  "patterns =
     [lit ''<think>'' @ [Few any_char] @ lit ''</think>'',
      lit ''<thinking>'' @ [Few any_char] @ lit ''</thinking>'',
      lit ''[Reasoning]'' @ [Few any_char] @ lit ''[/Reasoning]'',
      lit ''[Thought'' @ [Maybe (Only ''s'')] @ lit '']'' @ [Few any_char]
        @ lit ''[/Thought'' @ [Maybe (Only ''s'')] @ lit '']'',
      ilit ''**Thought'' @ [Maybe (Only '':''), Many (Except [CHR ''*'', newline])],
      ilit ''*Reasoning'' @ [Maybe (Only '':''), Many (Except [CHR ''*'', newline])],
      ilit ''let'' @ [One (Only [CHR 0x27])] @ ilit ''s reason step by step:''
        @ [Many any_char],
      ilit ''let'' @ [One (Only [CHR 0x27])] @ ilit ''s think step by step:''
        @ [Many any_char],
      ilit ''thinking process:'' @ [Many any_char]]"

text \<open>\<^verbatim>\<open>\n{2,}\<close>, replaced by two newlines.\<close>

definition blank_lines :: regex where
  "blank_lines = [One (Only [newline]), One (Only [newline]), Many (Only [newline])]"

text \<open>The characters below 256 for which \<^verbatim>\<open>str.isspace\<close> holds, which \<^verbatim>\<open>strip()\<close> removes.\<close>

definition is_space :: "char \<Rightarrow> bool" where
  "is_space c =
     (c \<in> set [CHR 0x09, CHR 0x0A, CHR 0x0B, CHR 0x0C, CHR 0x0D, CHR 0x1C, CHR 0x1D,
               CHR 0x1E, CHR 0x1F, CHR 0x20, CHR 0x85, CHR 0xA0])"

definition py_strip :: "string \<Rightarrow> string" where
  "py_strip s = rev (dropWhile is_space (rev (dropWhile is_space s)))"

definition clean_text :: "string \<Rightarrow> string" where
  "clean_text s =
     py_strip (re_sub blank_lines [newline, newline]
       (foldl (\<lambda>cleaned_text pattern. re_sub pattern [] cleaned_text) s patterns))"

text \<open>A value that is not a string is returned as it is (lines 241-242).\<close>

fun remove_reasoning_thoughts :: "pyval \<Rightarrow> pyval" where
  "remove_reasoning_thoughts (PStr s) = PStr (clean_text s)"
| "remove_reasoning_thoughts v = v"

section \<open>The HTTP endpoints\<close>

definition bind_e :: "exn + 'a \<Rightarrow> ('a \<Rightarrow> exn + 'b) \<Rightarrow> exn + 'b" where
  "bind_e m f = (case m of Inl e \<Rightarrow> Inl e | Inr x \<Rightarrow> f x)"

fun type_name :: "pyval \<Rightarrow> string" where
  "type_name PNone = ''NoneType''"
| "type_name (PBool b) = ''bool''"
| "type_name (PInt n) = ''int''"
| "type_name (PStr s) = ''str''"
| "type_name (PList xs) = ''list''"
| "type_name (PDict d) = ''dict''"

text \<open>\<^verbatim>\<open>block.get(key, default)\<close> on a block of a list-shaped message.\<close>

fun block_get :: "pyval \<Rightarrow> string \<Rightarrow> pyval \<Rightarrow> exn + pyval" where
  "block_get (PDict d) k dflt = Inr (dict_get d k dflt)"
| "block_get v k dflt =
     Inl (Exn AttributeError ([CHR 0x27] @ type_name v @ [CHR 0x27]
            @ '' object has no attribute '' @ [CHR 0x27] @ ''get'' @ [CHR 0x27]))"

text \<open>The list comprehension of lines 290-294.\<close>

fun reasoning_blocks :: "pyval list \<Rightarrow> exn + pyval list" where
  "reasoning_blocks [] = Inr []"
| "reasoning_blocks (block # rest) =
     bind_e (block_get block ''type'' PNone) (\<lambda>ty.
       if ty \<in> set [PStr ''reasoning'', PStr ''thinking'', PStr ''system''] then
         bind_e (block_get block ''text'' (PStr [])) (\<lambda>t.
         bind_e (reasoning_blocks rest) (\<lambda>ts. Inr (t # ts)))
       else reasoning_blocks rest)"

text \<open>A natural number in decimal, as \<^verbatim>\<open>str\<close> prints an index.\<close>

fun str_nat :: "nat \<Rightarrow> string" where
  "str_nat n =
     (if n < 10 then [''0123456789'' ! n]
      else str_nat (n div 10) @ [''0123456789'' ! (n mod 10)])"

text \<open>
  \<^verbatim>\<open>"\n".join(reasoning_blocks)\<close>. The first item that is not a string raises
  \<^verbatim>\<open>TypeError\<close>, whose text gives the index of the item and the name of its type.
\<close>

fun first_non_str :: "nat \<Rightarrow> pyval list \<Rightarrow> (nat \<times> pyval) option" where
  "first_non_str i [] = None"
| "first_non_str i (PStr s # rest) = first_non_str (Suc i) rest"
| "first_non_str i (v # rest) = Some (i, v)"

fun join_strings :: "pyval list \<Rightarrow> string" where
  "join_strings [] = []"
| "join_strings [PStr s] = s"
| "join_strings (PStr s # rest) = s @ [newline] @ join_strings rest"
| "join_strings (v # rest) = join_strings rest"

definition join_lines :: "pyval list \<Rightarrow> exn + string" where
  "join_lines items =
     (case first_non_str 0 items of
        Some (i, v) \<Rightarrow>
          Inl (Exn TypeError (''sequence item '' @ str_nat i @ '': expected str instance, ''
                 @ type_name v @ '' found''))
      | None \<Rightarrow> Inr (join_strings items))"

text \<open>The \<^verbatim>\<open>next(...)\<close> of lines 296-299, with its default.\<close>

fun first_output_text :: "pyval list \<Rightarrow> pyval \<Rightarrow> exn + pyval" where
  "first_output_text [] dflt = Inr dflt"
| "first_output_text (block # rest) dflt =
     bind_e (block_get block ''type'' PNone) (\<lambda>ty.
       if ty = PStr ''output_text'' then block_get block ''text'' PNone
       else first_output_text rest dflt)"

text \<open>
  Lines 280-299: from the \<^verbatim>\<open>text\<close> of the dispatch result, the pair of the local
  variables \<^verbatim>\<open>message\<close> and \<^verbatim>\<open>reasoning\<close>.
\<close>

definition extract_fields :: "pyval \<Rightarrow> exn + (pyval \<times> pyval)" where
  "extract_fields message =
     (case message of
        PDict d \<Rightarrow>
          Inr (dict_get d ''content'' (PStr []), dict_get d ''reasoning_content'' PNone)
      | PList blocks \<Rightarrow>
          bind_e (reasoning_blocks blocks) (\<lambda>rb.
          bind_e (join_lines rb) (\<lambda>reasoning.
          bind_e (first_output_text blocks message) (\<lambda>m. Inr (m, PStr reasoning))))
      | _ \<Rightarrow> Inr (message, PNone))"

text \<open>
  The JSON bodies the endpoints answer with: the chat reply
  \<^verbatim>\<open>{"choices": [{"message": {"role": "assistant", "content": c}}], "tool_used": t}\<close>,
  the report \<^verbatim>\<open>{"servers": r}\<close>, and status 500 with \<^verbatim>\<open>{"error": str(e)}\<close>.
\<close>

datatype response =
    ChatReply pyval "string option"
  | ServerReport "(string \<times> pyval) list"
  | ServerError string

text \<open>Lines 279-318: what \<^verbatim>\<open>chat_endpoint\<close> makes of the dispatch result.\<close>

definition normalize_response :: "dispatch_result \<Rightarrow> response" where
  "normalize_response response =
     (case extract_fields (result_text response) of
        Inl e \<Rightarrow> ServerError (str_exn e)
      | Inr (message, reasoning) \<Rightarrow>
          ChatReply (remove_reasoning_thoughts message) (tool_used response))"

text \<open>
  \<^verbatim>\<open>chat_endpoint\<close> (lines 267-321). \<open>adapter\<close> is the outcome of lines 271-275: the
  client of the provider and the model id, or the exception raised on the way.
\<close>

definition chat_endpoint ::
  "runtime \<Rightarrow> MCPClient \<Rightarrow> exn + (chat_client \<times> string) \<Rightarrow> turn list
     \<Rightarrow> event list \<times> response" where
  "chat_endpoint rt mcp_client adapter messages =
     (case adapter of
        Inl e \<Rightarrow> ([], ServerError (str_exn e))
      | Inr (client, model_id) \<Rightarrow>
          (case process_query rt mcp_client client model_id messages of
             (t, Inl e) \<Rightarrow> (t, ServerError (str_exn e))
           | (t, Inr response) \<Rightarrow> (t, normalize_response response)))"

subsection \<open>Loading a configuration\<close>

text \<open>
  One entry of \<^verbatim>\<open>servers\<close> in the uploaded YAML. A field is \<open>None\<close> when the entry has
  no such key, so that \<^verbatim>\<open>srv["name"]\<close> raises \<^verbatim>\<open>KeyError\<close>.
\<close>

record srv =
  srv_name :: "string option"
  srv_command :: "pyval option"
  srv_args :: "pyval option"
  srv_cwd :: "pyval option"

definition key :: "string \<Rightarrow> 'a option \<Rightarrow> exn + 'a" where
  "key k v =
     (case v of
        None \<Rightarrow> Inl (Exn KeyError ([CHR 0x27] @ k @ [CHR 0x27]))
      | Some x \<Rightarrow> Inr x)"

definition running_entry :: "pyval \<Rightarrow> pyval" where
  "running_entry cwd =
     PDict [(''status'', PStr ''running''), (''active'', PBool True), (''cwd'', cwd)]"

definition failed_entry :: "exn \<Rightarrow> pyval" where
  "failed_entry e =
     PDict [(''status'', PStr (''error: '' @ str_exn e)), (''active'', PBool False)]"

text \<open>
  The body of the \<^verbatim>\<open>try\<close> of lines 343-353: the new state of the client and the entry
  written to the report, or the exception.
\<close>

definition try_start ::
  "runtime \<Rightarrow> MCPClient \<Rightarrow> srv \<Rightarrow> exn + (MCPClient \<times> string \<times> pyval)" where
  "try_start rt mcp_client s =
     bind_e (key ''name'' (srv_name s)) (\<lambda>name.
     bind_e (key ''command'' (srv_command s)) (\<lambda>command.
     bind_e (key ''args'' (srv_args s)) (\<lambda>args.
     bind_e (key ''cwd'' (srv_cwd s)) (\<lambda>cwd.
     bind_e (connect_to_server rt mcp_client name command args cwd) (\<lambda>connected.
       Inr (connected, name, running_entry cwd))))))"

text \<open>
  The loop of lines 341-360 over the remaining entries; \<open>active\<close> is the local dict
  \<^verbatim>\<open>active_servers\<close> built so far. The handler of line 355 reads \<^verbatim>\<open>srv["name"]\<close> again,
  and an exception raised there leaves the loop.
\<close>

fun start_servers ::
  "runtime \<Rightarrow> srv list \<Rightarrow> MCPClient \<Rightarrow> (string \<times> pyval) list
     \<Rightarrow> MCPClient \<times> (exn + (string \<times> pyval) list)" where
  "start_servers rt [] mcp_client active = (mcp_client, Inr active)"
| "start_servers rt (s # rest) mcp_client active =
     (case try_start rt mcp_client s of
        Inr (connected, name, entry) \<Rightarrow>
          start_servers rt rest connected (AList.update name entry active)
      | Inl e \<Rightarrow>
          (case key ''name'' (srv_name s) of
             Inl e' \<Rightarrow> (mcp_client, Inl e')
           | Inr name \<Rightarrow>
               start_servers rt rest mcp_client (AList.update name (failed_entry e) active)))"

text \<open>
  What \<^verbatim>\<open>yaml.safe_load\<close> gave at line 334: nothing (an empty file), or a mapping with
  or without the key \<^verbatim>\<open>servers\<close>.
\<close>

datatype config = EmptyDocument | Mapping "srv list option"

text \<open>\<^verbatim>\<open>upload_config\<close> (lines 324-365), from the parsed configuration on.\<close>

definition upload_config :: "runtime \<Rightarrow> MCPClient \<Rightarrow> config \<Rightarrow> MCPClient \<times> response" where
  "upload_config rt mcp_client config_data =
     (case config_data of
        EmptyDocument \<Rightarrow>
          (mcp_client, ServerError ([CHR 0x27] @ ''NoneType'' @ [CHR 0x27]
             @ '' object has no attribute '' @ [CHR 0x27] @ ''get'' @ [CHR 0x27]))
      | Mapping entry \<Rightarrow>
          (case start_servers rt (case entry of None \<Rightarrow> [] | Some servers \<Rightarrow> servers)
                  mcp_client [] of
             (client, Inl e) \<Rightarrow> (client, ServerError (str_exn e))
           | (client, Inr active) \<Rightarrow> (client, ServerReport active)))"

subsection \<open>What a batch is expected to report\<close>

text \<open>
  Whether the \<^verbatim>\<open>try\<close> block raises for an entry, and the report entry it leads to, do
  not depend on the servers connected so far; they are read off a client without servers.
\<close>

definition fails_to_start :: "runtime \<Rightarrow> srv \<Rightarrow> bool" where
  "fails_to_start rt s =
     (case try_start rt \<lparr>sessions = [], active_servers = []\<rparr> s of
        Inl e \<Rightarrow> True
      | Inr started \<Rightarrow> False)"

definition report_entry :: "runtime \<Rightarrow> srv \<Rightarrow> pyval" where
  "report_entry rt s =
     (case try_start rt \<lparr>sessions = [], active_servers = []\<rparr> s of
        Inl e \<Rightarrow> failed_entry e
      | Inr (connected, name, entry) \<Rightarrow> entry)"

definition expected_report :: "runtime \<Rightarrow> srv list \<Rightarrow> (string \<times> pyval) list" where
  "expected_report rt servers = map (\<lambda>s. (the (srv_name s), report_entry rt s)) servers"

definition is_running_entry :: "pyval \<Rightarrow> bool" where
  "is_running_entry v =
     (case v of
        PDict d \<Rightarrow>
          map_of d ''status'' = Some (PStr ''running'') \<and> map_of d ''active'' = Some (PBool True)
      | _ \<Rightarrow> False)"

definition is_failed_entry :: "pyval \<Rightarrow> bool" where
  "is_failed_entry v =
     (case v of
        PDict d \<Rightarrow>
          (case map_of d ''status'' of
             Some (PStr status) \<Rightarrow> take 7 status = ''error: ''
           | _ \<Rightarrow> False)
          \<and> map_of d ''active'' = Some (PBool False)
      | _ \<Rightarrow> False)"

section \<open>A sample deployment\<close>

text \<open>
  Concrete collaborators for the examples below: the server \<^verbatim>\<open>mcp_todayinfo\<close> of
  \<^verbatim>\<open>src/mcp_servers\<close> with its tool \<^verbatim>\<open>get_date\<close>, a session whose connection is closed, and
  a provider whose reply to a request with tools (Phase 1) and to one without (Phase 2)
  is fixed in advance.
\<close>

definition get_date_tool :: tool where
  "get_date_tool =
     \<lparr>tool_name = ''get_date'',
      tool_description = PStr ''Return the current date and time'',
      tool_inputSchema = PDict [(''type'', PStr ''object'')]\<rparr>"

definition date_result :: call_tool_result where
  "date_result =
     \<lparr>structuredContent = IsDict [(''result'', PStr ''2025-01-01 12:00:00'')],
      rendered = ''meta=None''\<rparr>"

definition todayinfo_session :: session where
  "todayinfo_session =
     \<lparr>list_tools = Inr [get_date_tool],
      call_tool = (\<lambda>name args.
        if name = ''get_date'' then Inr date_result
        else Inl (Exn ExternalError ''Unknown tool''))\<rparr>"

definition closed_session :: session where
  "closed_session =
     \<lparr>list_tools = Inl (Exn ExternalError ''Connection closed''),
      call_tool = (\<lambda>name args. Inl (Exn ExternalError ''Connection closed''))\<rparr>"

text \<open>
  A reader of JSON that knows the document \<^verbatim>\<open>{}\<close> and rejects every other string; it is
  applied to \<^verbatim>\<open>{}\<close> and to \<^verbatim>\<open>{\<close> only, where \<^verbatim>\<open>json.loads\<close> does the same. Every value
  formatted in the examples is a string, so \<open>py_repr\<close> is not consulted. The launcher
  starts \<^verbatim>\<open>python mcp_todayinfo.py\<close> and finds no other command.
\<close>

definition sample_runtime :: runtime where
  "sample_runtime =
     \<lparr>json_loads = (\<lambda>s.
        if s = ''{}'' then Inr (PDict [])
        else Inl (Exn JSONDecodeError
               ''Expecting property name enclosed in double quotes: line 1 column 2 (char 1)'')),
      py_repr = (\<lambda>v. []),
      launch = (\<lambda>name command args cwd.
        if command = PStr ''python'' \<and> args = PList [PStr ''mcp_todayinfo.py'']
        then Inr todayinfo_session
        else Inl (Exn ExternalError ''[Errno 2] No such file or directory''))\<rparr>"

definition no_servers :: MCPClient where
  "no_servers = \<lparr>sessions = [], active_servers = []\<rparr>"

definition hub :: MCPClient where
  "hub =
     \<lparr>sessions = [(''todayinfo'', todayinfo_session)],
      active_servers = [(''todayinfo'', PBool True)]\<rparr>"

definition degraded_hub :: MCPClient where
  "degraded_hub =
     \<lparr>sessions = [(''todayinfo'', todayinfo_session), (''chatmemory'', closed_session),
                  (''calendar'', todayinfo_session)],
      active_servers = [(''todayinfo'', PBool True), (''chatmemory'', PBool True),
                        (''calendar'', PBool True)]\<rparr>"

definition hub_schema :: "tool_spec list" where
  "hub_schema =
     [\<lparr>spec_type = ''function'',
       fn_name = ''todayinfo:get_date'',
       fn_description = PStr ''Return the current date and time'',
       fn_parameters = PDict [(''type'', PStr ''object'')]\<rparr>]"

definition scripted_client :: "message \<Rightarrow> message \<Rightarrow> chat_client" where
  "scripted_client first second =
     (\<lambda>request. case req_tools request of Some _ \<Rightarrow> Inr [first] | None \<Rightarrow> Inr [second])"

definition asked :: "turn list" where
  "asked = [[(''role'', PStr ''user''), (''content'', PStr ''What day is it?'')]]"

definition say :: "string \<Rightarrow> message" where
  "say s = \<lparr>content = PStr s, tool_calls = None\<rparr>"

definition request_tools :: "pyval \<Rightarrow> tool_call list \<Rightarrow> message" where
  "request_tools c calls = \<lparr>content = c, tool_calls = Some calls\<rparr>"

definition invoke :: "string \<Rightarrow> string \<Rightarrow> tool_call" where
  "invoke name arguments = \<lparr>call_name = name, call_arguments = arguments\<rparr>"

definition date_call :: tool_call where
  "date_call = invoke ''todayinfo:get_date'' ''{}''"

definition weather_call :: tool_call where
  "weather_call = invoke ''todayinfo:get_weather'' ''{}''"

definition ghost_call :: "string \<Rightarrow> tool_call" where
  "ghost_call arguments = invoke ''ghost:tool'' arguments"

definition planner :: "pyval \<Rightarrow> tool_call list \<Rightarrow> chat_client" where
  "planner c calls = scripted_client (request_tools c calls) (say ''It is noon.'')"

definition sample_prompt :: string where
  "sample_prompt = final_prompt ''What day is it?'' ''2025-01-01 12:00:00''"

definition structured_reply :: message where
  "structured_reply =
     \<lparr>content = PDict [(''content'', PStr ''hello''), (''reasoning_content'', PStr ''because'')],
      tool_calls = None\<rparr>"

text \<open>
  A configuration with three entries: one that starts, one whose command does not exist,
  and one without the key \<^verbatim>\<open>cwd\<close>.
\<close>

definition todayinfo_entry :: srv where
  "todayinfo_entry =
     \<lparr>srv_name = Some ''todayinfo'', srv_command = Some (PStr ''python''),
      srv_args = Some (PList [PStr ''mcp_todayinfo.py'']),
      srv_cwd = Some (PStr ''./mcp_servers'')\<rparr>"

definition mistyped_entry :: srv where
  "mistyped_entry =
     \<lparr>srv_name = Some ''chatmemory'', srv_command = Some (PStr ''pythn''),
      srv_args = Some (PList [PStr ''mcp_chatmemory.py'']),
      srv_cwd = Some (PStr ''./mcp_servers'')\<rparr>"

definition incomplete_entry :: srv where
  "incomplete_entry =
     \<lparr>srv_name = Some ''weather'', srv_command = Some (PStr ''python''),
      srv_args = Some (PList [PStr ''mcp_todayinfo.py'']),
      srv_cwd = None\<rparr>"

definition sample_servers :: "srv list" where
  "sample_servers = [todayinfo_entry, mistyped_entry, incomplete_entry]"

definition sample_report :: "(string \<times> pyval) list" where
  "sample_report =
     [(''todayinfo'', PDict [(''status'', PStr ''running''), (''active'', PBool True),
                             (''cwd'', PStr ''./mcp_servers'')]),
      (''chatmemory'', PDict [(''status'', PStr ''error: [Errno 2] No such file or directory''),
                              (''active'', PBool False)]),
      (''weather'', PDict [(''status'', PStr (''error: '' @ [CHR 0x27] @ ''cwd'' @ [CHR 0x27])),
                           (''active'', PBool False)])]"

text \<open>
  A conversation of three turns, and a server \<^verbatim>\<open>notes\<close> whose tool answers with a
  response that has the attribute \<^verbatim>\<open>structuredContent\<close> set to \<^verbatim>\<open>None\<close>, as a response
  without structured content has.
\<close>

definition conversation :: "turn list" where
  "conversation =
     [[(''role'', PStr ''user''), (''content'', PStr ''Hello'')],
      [(''role'', PStr ''assistant''), (''content'', PStr ''Hi, how can I help?'')],
      [(''role'', PStr ''user''), (''content'', PStr ''What day is it?'')]]"

definition read_tool :: tool where
  "read_tool =
     \<lparr>tool_name = ''read'',
      tool_description = PStr ''Read the notes'',
      tool_inputSchema = PDict [(''type'', PStr ''object'')]\<rparr>"

definition unstructured_result :: call_tool_result where
  "unstructured_result = \<lparr>structuredContent = IsNone, rendered = ''meta=None''\<rparr>"

definition notes_session :: session where
  "notes_session =
     \<lparr>list_tools = Inr [read_tool],
      call_tool = (\<lambda>name args.
        if name = ''read'' then Inr unstructured_result
        else Inl (Exn ExternalError ''Unknown tool''))\<rparr>"

definition notes_hub :: MCPClient where
  "notes_hub =
     \<lparr>sessions = [(''notes'', notes_session)],
      active_servers = [(''notes'', PBool True)]\<rparr>"

definition notes_schema :: "tool_spec list" where
  "notes_schema =
     [\<lparr>spec_type = ''function'',
       fn_name = ''notes:read'',
       fn_description = PStr ''Read the notes'',
       fn_parameters = PDict [(''type'', PStr ''object'')]\<rparr>]"

definition read_call :: tool_call where
  "read_call = invoke ''notes:read'' ''{}''"

section \<open>Properties\<close>

subsection \<open>Recorded computations\<close>

lemma bind_t_ret: "bind_t (ret x) f = f x"
  by (simp add: bind_t_def ret_def split: prod.splits)

lemma bind_t_pure_Inr: "bind_t (pure_t (Inr x)) f = f x"
  by (simp add: bind_t_def pure_t_def split: prod.splits)

lemma bind_t_pure_Inl: "bind_t (pure_t (Inl e)) f = ([], Inl e)"
  by (simp add: bind_t_def pure_t_def)

lemma bind_t_perform_Inr: "bind_t (perform ev (Inr x)) f = (ev # fst (f x), snd (f x))"
  by (simp add: bind_t_def perform_def split: prod.splits)

lemma bind_t_perform_Inl: "bind_t (perform ev (Inl e)) f = ([ev], Inl e)"
  by (simp add: bind_t_def perform_def)

lemma bind_t_Inr: "bind_t (t, Inr x) f = (t @ fst (f x), snd (f x))"
  by (simp add: bind_t_def split: prod.splits)

lemma bind_t_Inl: "bind_t (t, Inl e) f = (t, Inl e)"
  by (simp add: bind_t_def)

lemma model_calls_simps:
  "model_calls [] = []"
  "model_calls (ListTools n # t) = model_calls t"
  "model_calls (ModelCall r # t) = r # model_calls t"
  "model_calls (CallTool s n a # t) = model_calls t"
  "model_calls (t @ u) = model_calls t @ model_calls u"
  by (simp_all add: model_calls_def)

lemma tool_invocations_simps:
  "tool_invocations [] = []"
  "tool_invocations (ListTools n # t) = tool_invocations t"
  "tool_invocations (ModelCall r # t) = tool_invocations t"
  "tool_invocations (CallTool s n a # t) = (s, n, a) # tool_invocations t"
  "tool_invocations (t @ u) = tool_invocations t @ tool_invocations u"
  by (simp_all add: tool_invocations_def)

subsection \<open>The schema build calls neither the model nor a tool\<close>

lemma schema_loop_trace:
  "model_calls (fst (schema_loop self ss acc)) = []
   \<and> tool_invocations (fst (schema_loop self ss acc)) = []"
proof (induction ss arbitrary: acc)
  case Nil
  show ?case by (simp add: ret_def model_calls_simps tool_invocations_simps)
next
  case (Cons p ss)
  obtain name session where p: "p = (name, session)" by (cases p)
  show ?case
  proof (cases "list_tools session")
    case (Inl e)
    with p Cons show ?thesis
      by (simp add: bind_t_perform_Inl model_calls_simps tool_invocations_simps)
  next
    case (Inr ts)
    with p Cons show ?thesis
      by (simp add: bind_t_perform_Inr model_calls_simps tool_invocations_simps)
  qed
qed

subsection \<open>After the Phase-1 reply\<close>

lemma process_query_phase1:
  assumes "schema_loop self (sessions self) [] = (t, Inr available_tools)"
    and "chat_client (phase1_request model_id messages available_tools) = Inr (msg # others)"
  shows "process_query rt self chat_client model_id messages =
           (t @ ModelCall (phase1_request model_id messages available_tools)
              # fst (handle_reply rt self chat_client model_id messages msg),
            snd (handle_reply rt self chat_client model_id messages msg))"
  using assms
  by (simp add: process_query_def bind_t_Inr bind_t_perform_Inr
      first_choice_def bind_t_pure_Inr)

lemma tool_branch_invocations:
  "tool_invocations (fst (tool_branch rt self cc mid msgs tc)) = []
   \<or> (\<exists>server tname args.
         parse_tool_name (call_name tc) = Inr (server, tname)
         \<and> json_loads rt (call_arguments tc) = Inr args
         \<and> tool_invocations (fst (tool_branch rt self cc mid msgs tc)) = [(server, tname, args)])"
  by (auto simp: tool_branch_def bind_t_def pure_t_def perform_def ret_def
      tool_invocations_simps split: sum.splits option.splits prod.splits)

subsection \<open>Identifiers\<close>

lemma split1_append:
  "sep \<notin> set a \<Longrightarrow> split1 sep (a @ sep # b) = [a, b]"
  by (simp add: split1_def dropWhile_append3 takeWhile_tail dropWhile_append)

text \<open>
  Claim C7. Namespaced tool identifiers round-trip: for every server name that does not
  contain the separator \<open>:\<close> and every tool name (which may contain it), formatting
  \<open><serverName>:<toolName>\<close> and then splitting on the first separator gives back exactly
  the pair of server name and tool name.
\<close>

theorem namespaced_roundtrip:
  assumes "CHR '':'' \<notin> set server"
  shows "parse_tool_name (namespaced server tname) = Inr (server, tname)"
  using assms by (simp add: parse_tool_name_def namespaced_def split1_append)

theorem namespaced_roundtrip_witness:
  "CHR '':'' \<notin> set ''todayinfo''
   \<and> parse_tool_name (namespaced ''todayinfo'' ''get:weather'') = Inr (''todayinfo'', ''get:weather'')"
  using namespaced_roundtrip [of "''todayinfo''" "''get:weather''"] by simp

lemma parse_tool_name_namespaced:
  assumes "parse_tool_name n = Inr (a, b)"
  shows "namespaced a b = n"
proof -
  let ?P = "\<lambda>c. c \<noteq> CHR '':''"
  from assms obtain x rest where d: "dropWhile ?P n = x # rest"
    and a: "a = takeWhile ?P n" and b: "b = rest"
    by (auto simp: parse_tool_name_def split1_def split: list.splits)
  from d have "x = CHR '':''"
    using hd_dropWhile [of ?P n] by force
  with d a b have "a @ '':'' @ b = takeWhile ?P n @ dropWhile ?P n" by simp
  then show ?thesis by (simp add: namespaced_def)
qed

subsection \<open>The sample deployment\<close>

lemmas sample_defs = hub_def todayinfo_session_def get_date_tool_def hub_schema_def
  scripted_client_def asked_def say_def request_tools_def invoke_def sample_runtime_def
  no_servers_def degraded_hub_def closed_session_def date_result_def

lemma hub_schema_built:
  "schema_loop hub (sessions hub) [] = ([ListTools ''todayinfo''], Inr hub_schema)"
  by (simp add: sample_defs is_active_def dict_get_def bind_t_perform_Inr ret_def
      function_spec_def namespaced_def)

lemma clean_hello: "clean_text ''hello'' = ''hello''"
  by code_simp

subsection \<open>Dispatch\<close>

text \<open>
  Claim C2. When the Phase-1 reply carries direct text and no tool invocation, dispatch
  returns that text with no tool used and ends there: the calls it has made are the
  catalog queries of the schema build and one call of the model, no tool is invoked, and
  \<^verbatim>\<open>chat_endpoint\<close> answers with the text after the removal of reasoning markers.
\<close>

theorem direct_text_reply:
  assumes "schema_loop self (sessions self) [] = (t, Inr available_tools)"
    and "chat_client (phase1_request model_id messages available_tools) = Inr (msg # others)"
    and "content msg = PStr s" and "s \<noteq> []"
    and "first_tool_call msg = None"
  shows "process_query rt self chat_client model_id messages =
           (t @ [ModelCall (phase1_request model_id messages available_tools)],
            Inr \<lparr>result_text = PStr s, tool_used = None\<rparr>)
         \<and> model_calls (fst (process_query rt self chat_client model_id messages)) =
             [phase1_request model_id messages available_tools]
         \<and> tool_invocations (fst (process_query rt self chat_client model_id messages)) = []
         \<and> chat_endpoint rt self (Inr (chat_client, model_id)) messages =
             (t @ [ModelCall (phase1_request model_id messages available_tools)],
              ChatReply (PStr (clean_text s)) None)"
proof -
  have h: "handle_reply rt self chat_client model_id messages msg =
             ([], Inr \<lparr>result_text = PStr s, tool_used = None\<rparr>)"
    using assms(3-5) by (simp add: handle_reply_def ret_def)
  have pq: "process_query rt self chat_client model_id messages =
           (t @ [ModelCall (phase1_request model_id messages available_tools)],
            Inr \<lparr>result_text = PStr s, tool_used = None\<rparr>)"
    using assms(1,2) h by (simp add: process_query_phase1)
  have t: "model_calls t = []" "tool_invocations t = []"
    using schema_loop_trace [of self "sessions self" "[]"] assms(1) by simp_all
  show ?thesis
    using pq t
    by (simp add: model_calls_simps tool_invocations_simps chat_endpoint_def normalize_response_def
        extract_fields_def)
qed

theorem direct_text_reply_witness:
  "schema_loop hub (sessions hub) [] = ([ListTools ''todayinfo''], Inr hub_schema)
   \<and> scripted_client (say ''hello'') (say ''unused'') (phase1_request ''gpt'' asked hub_schema)
       = Inr [say ''hello'']
   \<and> content (say ''hello'') = PStr ''hello'' \<and> ''hello'' \<noteq> []
   \<and> first_tool_call (say ''hello'') = None
   \<and> process_query sample_runtime hub (scripted_client (say ''hello'') (say ''unused''))
        ''gpt'' asked =
       ([ListTools ''todayinfo'', ModelCall (phase1_request ''gpt'' asked hub_schema)],
        Inr \<lparr>result_text = PStr ''hello'', tool_used = None\<rparr>)
   \<and> chat_endpoint sample_runtime hub
        (Inr (scripted_client (say ''hello'') (say ''unused''), ''gpt'')) asked =
       ([ListTools ''todayinfo'', ModelCall (phase1_request ''gpt'' asked hub_schema)],
        ChatReply (PStr ''hello'') None)"
proof -
  have 2: "scripted_client (say ''hello'') (say ''unused'') (phase1_request ''gpt'' asked hub_schema)
       = Inr [say ''hello'']"
    by (simp add: scripted_client_def phase1_request_def)
  have 3: "content (say ''hello'') = PStr ''hello''" by (simp add: say_def)
  have 4: "''hello'' \<noteq> []" by simp
  have 5: "first_tool_call (say ''hello'') = None" by (simp add: say_def first_tool_call_def)
  from direct_text_reply [where chat_client = "scripted_client (say ''hello'') (say ''unused'')"
      and rt = sample_runtime, OF hub_schema_built 2 3 4 5]
  show ?thesis using hub_schema_built 2 3 4 5 by (simp add: clean_hello)
qed

text \<open>
  Claim C9. If the Phase-1 reply has neither usable text (its content is \<^verbatim>\<open>None\<close> or
  empty) nor a tool invocation, dispatch returns the text \<open>No response from model.\<close> with
  no tool used, as a result and not as an exception, after its single call of the model.
\<close>

theorem no_response:
  assumes "schema_loop self (sessions self) [] = (t, Inr available_tools)"
    and "chat_client (phase1_request model_id messages available_tools) = Inr (msg # others)"
    and "\<not> truthy (content msg)"
    and "first_tool_call msg = None"
  shows "process_query rt self chat_client model_id messages =
           (t @ [ModelCall (phase1_request model_id messages available_tools)],
            Inr \<lparr>result_text = PStr ''No response from model.'', tool_used = None\<rparr>)"
proof -
  have h: "handle_reply rt self chat_client model_id messages msg =
             ([], Inr \<lparr>result_text = PStr ''No response from model.'', tool_used = None\<rparr>)"
    using assms(3,4) by (simp add: handle_reply_def ret_def)
  show ?thesis
    using assms(1,2) h by (simp add: process_query_phase1)
qed

theorem no_response_witness:
  "schema_loop hub (sessions hub) [] = ([ListTools ''todayinfo''], Inr hub_schema)
   \<and> scripted_client (say []) (say ''unused'') (phase1_request ''gpt'' asked hub_schema)
       = Inr [say []]
   \<and> \<not> truthy (content (say []))
   \<and> first_tool_call (say []) = None
   \<and> process_query sample_runtime hub (scripted_client (say []) (say ''unused'')) ''gpt'' asked =
       ([ListTools ''todayinfo'', ModelCall (phase1_request ''gpt'' asked hub_schema)],
        Inr \<lparr>result_text = PStr ''No response from model.'', tool_used = None\<rparr>)"
proof -
  have 2: "scripted_client (say []) (say ''unused'') (phase1_request ''gpt'' asked hub_schema)
       = Inr [say []]"
    by (simp add: scripted_client_def phase1_request_def)
  have 3: "\<not> truthy (content (say []))" by (simp add: say_def)
  have 4: "first_tool_call (say []) = None" by (simp add: say_def first_tool_call_def)
  from no_response [where chat_client = "scripted_client (say []) (say ''unused'')"
      and rt = sample_runtime, OF hub_schema_built 2 3 4]
  show ?thesis using hub_schema_built 2 3 4 by simp
qed

subsection \<open>The tool branch\<close>

lemma consistent_running:
  assumes "consistent self" and "\<not> running self server"
  shows "map_of (sessions self) server = None"
proof (rule ccontr)
  assume "map_of (sessions self) server \<noteq> None"
  then obtain session where s: "map_of (sessions self) server = Some session" by auto
  then have "server \<in> set (map fst (sessions self))"
    by (force dest: map_of_SomeD)
  with assms(1) have "is_active self server"
    by (auto simp: consistent_def list_all_iff)
  with s assms(2) show False by (simp add: running_def)
qed

lemma tool_branch_success:
  assumes "parse_tool_name (call_name tool_call) = Inr (server, tname)"
    and "json_loads rt (call_arguments tool_call) = Inr tool_args"
    and "map_of (sessions self) server = Some session"
    and "call_tool session tname tool_args = Inr tool_result"
    and "extract_result tool_result = Inr result"
    and "last_content messages = Inr question"
    and "chat_client (phase2_request model_id
           (final_prompt (py_str rt question) (str_value rt result))) = Inr (final_msg # others)"
  shows "tool_branch rt self chat_client model_id messages tool_call =
           ([CallTool server tname tool_args,
             ModelCall (phase2_request model_id
               (final_prompt (py_str rt question) (str_value rt result)))],
            Inr \<lparr>result_text = content final_msg,
                 tool_used = Some (namespaced server tname)\<rparr>)"
  using assms
  by (simp add: tool_branch_def bind_t_pure_Inr bind_t_perform_Inr first_choice_def ret_def)

lemma tool_branch_unknown:
  assumes "parse_tool_name (call_name tool_call) = Inr (server, tname)"
    and "map_of (sessions self) server = None"
  shows "tool_branch rt self chat_client model_id messages tool_call =
           (case json_loads rt (call_arguments tool_call) of
              Inl e \<Rightarrow> ([], Inl e)
            | Inr tool_args \<Rightarrow>
                ([], Inr \<lparr>result_text = PStr (''Error: server '' @ [CHR 0x27] @ server
                                              @ [CHR 0x27] @ '' not connected.''),
                         tool_used = None\<rparr>))"
  using assms
  by (simp add: tool_branch_def bind_t_pure_Inr bind_t_pure_Inl ret_def split: sum.splits)

lemma handle_reply_call:
  assumes "first_tool_call msg = Some tool_call"
  shows "handle_reply rt self chat_client model_id messages msg =
           tool_branch rt self chat_client model_id messages tool_call"
  using assms by (simp add: handle_reply_def)



lemma final_prompt_contains:
  "\<exists>a b c. final_prompt question result = a @ question @ b @ result @ c"
proof -
  have "final_prompt question result =
          ([CHR 0x0A] @ ''            The user asked: '' @ [CHR 0x22]) @ question
          @ ([CHR 0x22] @ [CHR 0x0A] @ ''            The tool returned: '' @ [CHR 0x22]) @ result
          @ ([CHR 0x22] @ [CHR 0x0A] @ ''            Please summarize and respond naturally.''
             @ [CHR 0x0A] @ ''            '')"
    by (simp add: final_prompt_def)
  then show ?thesis by blast
qed

lemma consistent_connect:
  assumes "consistent self"
    and "connect_to_server rt self name command args cwd = Inr connected"
  shows "consistent connected"
proof -
  from assms(2) obtain session where
    c: "connected = self\<lparr>sessions := AList.update name session (sessions self),
                         active_servers := AList.update name (PBool True) (active_servers self)\<rparr>"
    by (auto simp: connect_to_server_def split: sum.splits)
  have "is_active connected n" if "n \<in> set (map fst (sessions connected))" for n
  proof (cases "n = name")
    case True
    then show ?thesis by (simp add: c is_active_def dict_get_def update_conv')
  next
    case False
    with that c have "n \<in> set (map fst (sessions self))"
      by (simp add: update_keys split: if_splits)
    with assms(1) have "is_active self n" by (auto simp: consistent_def list_all_iff)
    with False show ?thesis by (simp add: c is_active_def dict_get_def update_conv')
  qed
  then show ?thesis by (simp add: consistent_def list_all_iff)
qed

lemma planner_phase1:
  "planner c calls (phase1_request model_id messages tools) = Inr [request_tools c calls]"
  by (simp add: planner_def scripted_client_def phase1_request_def)

lemma planner_phase2:
  "planner c calls (phase2_request model_id prompt) = Inr [say ''It is noon.'']"
  by (simp add: planner_def scripted_client_def phase2_request_def)

lemma first_tool_call_request:
  "first_tool_call (request_tools c (tc # calls)) = Some tc"
  by (simp add: first_tool_call_def request_tools_def)

lemma parse_date_call: "parse_tool_name (call_name date_call) = Inr (''todayinfo'', ''get_date'')"
  by (simp add: date_call_def invoke_def parse_tool_name_def split1_def)

lemma parse_ghost_call: "parse_tool_name (call_name (ghost_call a)) = Inr (''ghost'', ''tool'')"
  by (simp add: ghost_call_def invoke_def parse_tool_name_def split1_def)

lemma loads_date_call: "json_loads sample_runtime (call_arguments date_call) = Inr (PDict [])"
  by (simp add: date_call_def invoke_def sample_runtime_def)

lemma hub_todayinfo: "map_of (sessions hub) ''todayinfo'' = Some todayinfo_session"
  by (simp add: hub_def)

lemma call_get_date: "call_tool todayinfo_session ''get_date'' (PDict []) = Inr date_result"
  by (simp add: todayinfo_session_def)

lemma extract_date: "extract_result date_result = Inr (Field (PStr ''2025-01-01 12:00:00''))"
  by (simp add: extract_result_def date_result_def)

lemma asked_content: "last_content asked = Inr (PStr ''What day is it?'')"
  by (simp add: last_content_def asked_def getitem_def)

lemma say_content: "content (say s) = PStr s"
  by (simp add: say_def)

lemma date_call_name: "call_name date_call = ''todayinfo:get_date''"
  by (simp add: date_call_def invoke_def)

lemma hub_date_branch:
  "tool_branch sample_runtime hub (planner c calls) ''gpt'' asked date_call =
     ([CallTool ''todayinfo'' ''get_date'' (PDict []),
       ModelCall (phase2_request ''gpt'' sample_prompt)],
      Inr \<lparr>result_text = PStr ''It is noon.'', tool_used = Some ''todayinfo:get_date''\<rparr>)"
proof -
  have "planner c calls (phase2_request ''gpt''
              (final_prompt (py_str sample_runtime (PStr ''What day is it?''))
                 (str_value sample_runtime (Field (PStr ''2025-01-01 12:00:00'')))))
            = Inr [say ''It is noon.'']"
    by (rule planner_phase2)
  from tool_branch_success [where chat_client = "planner c calls", OF parse_date_call
      loads_date_call hub_todayinfo call_get_date extract_date asked_content this]
  show ?thesis by (simp add: sample_prompt_def say_content namespaced_def)
qed

lemma hub_consistent: "consistent hub"
  by (simp add: consistent_def hub_def is_active_def dict_get_def)

lemma hub_ghost: "\<not> running hub ''ghost''"
  by (simp add: running_def hub_def)

text \<open>
  The tool branch where nothing fails: the payload parses, the server has a session, the
  call of the tool succeeds, the response has a structured \<open>result\<close> field or no attribute
  \<^verbatim>\<open>structuredContent\<close> at all, the conversation ends with a turn that has a content, and
  the model answers. Then the tool is invoked exactly once, the model is sent one fresh
  request holding a single user turn whose text contains the content of the final turn of
  the conversation and the result of the tool, and dispatch returns the text of that
  second reply with the namespaced identifier of the tool.
\<close>

lemma tool_call_completes:
  assumes "schema_loop self (sessions self) [] = (t, Inr available_tools)"
    and "chat_client (phase1_request model_id messages available_tools) = Inr (msg # others)"
    and "first_tool_call msg = Some tool_call"
    and "parse_tool_name (call_name tool_call) = Inr (server, tname)"
    and "json_loads rt (call_arguments tool_call) = Inr tool_args"
    and "map_of (sessions self) server = Some session"
    and "call_tool session tname tool_args = Inr tool_result"
    and "extract_result tool_result = Inr result"
    and "messages = earlier @ [final_turn]"
    and "map_of final_turn ''content'' = Some question"
    and "chat_client (phase2_request model_id
           (final_prompt (py_str rt question) (str_value rt result))) = Inr (final_msg # others')"
  shows "process_query rt self chat_client model_id messages =
           (t @ [ModelCall (phase1_request model_id messages available_tools),
                 CallTool server tname tool_args,
                 ModelCall (phase2_request model_id
                   (final_prompt (py_str rt question) (str_value rt result)))],
            Inr \<lparr>result_text = content final_msg, tool_used = Some (call_name tool_call)\<rparr>)
         \<and> tool_invocations (fst (process_query rt self chat_client model_id messages)) =
             [(server, tname, tool_args)]
         \<and> model_calls (fst (process_query rt self chat_client model_id messages)) =
             [phase1_request model_id messages available_tools,
              phase2_request model_id (final_prompt (py_str rt question) (str_value rt result))]
         \<and> req_messages (phase2_request model_id
               (final_prompt (py_str rt question) (str_value rt result))) =
             [[(''role'', PStr ''user''),
               (''content'', PStr (final_prompt (py_str rt question) (str_value rt result)))]]
         \<and> (\<exists>a b c. final_prompt (py_str rt question) (str_value rt result) =
               a @ py_str rt question @ b @ str_value rt result @ c)
         \<and> call_name tool_call = namespaced server tname"
proof -
  have name: "namespaced server tname = call_name tool_call"
    using assms(4) by (rule parse_tool_name_namespaced)
  have last: "last_content messages = Inr question"
    using assms(9,10) by (cases earlier) (simp_all add: last_content_def getitem_def)
  have tb: "tool_branch rt self chat_client model_id messages tool_call =
           ([CallTool server tname tool_args,
             ModelCall (phase2_request model_id
               (final_prompt (py_str rt question) (str_value rt result)))],
            Inr \<lparr>result_text = content final_msg,
                 tool_used = Some (namespaced server tname)\<rparr>)"
    using assms(4-8) last assms(11) by (rule tool_branch_success)
  have pq: "process_query rt self chat_client model_id messages =
           (t @ [ModelCall (phase1_request model_id messages available_tools),
                 CallTool server tname tool_args,
                 ModelCall (phase2_request model_id
                   (final_prompt (py_str rt question) (str_value rt result)))],
            Inr \<lparr>result_text = content final_msg, tool_used = Some (call_name tool_call)\<rparr>)"
    using assms(1,2) handle_reply_call [OF assms(3)] tb name
    by (simp add: process_query_phase1)
  have t: "model_calls t = []" "tool_invocations t = []"
    using schema_loop_trace [of self "sessions self" "[]"] assms(1) by simp_all
  show ?thesis
    using pq t name final_prompt_contains
    by (simp add: model_calls_simps tool_invocations_simps phase2_request_def)
qed

text \<open>
  On the conversation of three turns the prompt of the second request quotes the last
  turn, \<open>What day is it?\<close>, and neither of the turns before it.
\<close>

lemma tool_call_completes_example:
  "process_query sample_runtime hub (planner PNone [date_call]) ''gpt'' conversation =
     ([ListTools ''todayinfo'',
       ModelCall (phase1_request ''gpt'' conversation hub_schema),
       CallTool ''todayinfo'' ''get_date'' (PDict []),
       ModelCall (phase2_request ''gpt''
         (final_prompt ''What day is it?'' ''2025-01-01 12:00:00''))],
      Inr \<lparr>result_text = PStr ''It is noon.'', tool_used = Some ''todayinfo:get_date''\<rparr>)"
proof -
  have 9: "conversation =
     [[(''role'', PStr ''user''), (''content'', PStr ''Hello'')],
      [(''role'', PStr ''assistant''), (''content'', PStr ''Hi, how can I help?'')]]
     @ [[(''role'', PStr ''user''), (''content'', PStr ''What day is it?'')]]"
    by (simp add: conversation_def)
  have 10: "map_of [(''role'', PStr ''user''), (''content'', PStr ''What day is it?'')]
      ''content'' = Some (PStr ''What day is it?'')"
    by simp
  have 11: "planner PNone [date_call] (phase2_request ''gpt''
              (final_prompt (py_str sample_runtime (PStr ''What day is it?''))
                 (str_value sample_runtime (Field (PStr ''2025-01-01 12:00:00'')))))
            = Inr [say ''It is noon.'']"
    by (rule planner_phase2)
  from tool_call_completes [where chat_client = "planner PNone [date_call]",
      OF hub_schema_built planner_phase1 first_tool_call_request parse_date_call loads_date_call
        hub_todayinfo call_get_date extract_date 9 10 11]
  show ?thesis by (simp add: say_content date_call_name)
qed

lemma notes_schema_built:
  "schema_loop notes_hub (sessions notes_hub) [] = ([ListTools ''notes''], Inr notes_schema)"
  by (simp add: notes_hub_def notes_session_def read_tool_def notes_schema_def is_active_def
      dict_get_def bind_t_perform_Inr ret_def function_spec_def namespaced_def)

lemma notes_read_branch:
  "tool_branch sample_runtime notes_hub chat_client ''gpt'' asked read_call =
     ([CallTool ''notes'' ''read'' (PDict [])],
      Inl (Exn TypeError (''argument of type '' @ [CHR 0x27] @ ''NoneType'' @ [CHR 0x27]
             @ '' is not iterable'')))"
proof -
  have "parse_tool_name (call_name read_call) = Inr (''notes'', ''read'')"
    by (simp add: read_call_def invoke_def parse_tool_name_def split1_def)
  moreover have "json_loads sample_runtime (call_arguments read_call) = Inr (PDict [])"
    by (simp add: read_call_def invoke_def sample_runtime_def)
  moreover have "map_of (sessions notes_hub) ''notes'' = Some notes_session"
    by (simp add: notes_hub_def)
  moreover have "call_tool notes_session ''read'' (PDict []) = Inr unstructured_result"
    by (simp add: notes_session_def)
  moreover have "extract_result unstructured_result =
      Inl (Exn TypeError (''argument of type '' @ [CHR 0x27] @ ''NoneType'' @ [CHR 0x27]
             @ '' is not iterable''))"
    by (simp add: extract_result_def unstructured_result_def)
  ultimately show ?thesis
    by (simp add: tool_branch_def bind_t_pure_Inr bind_t_pure_Inl bind_t_perform_Inr)
qed

text \<open>
  Claim C3. When the Phase-1 reply requests a valid tool on a Running server, dispatch is
  to invoke the tool once, send the Phase-2 request and return its reply. The code does
  not do so for every response of the tool: for the Running server \<^verbatim>\<open>notes\<close>, whose tool
  \<^verbatim>\<open>read\<close> succeeds with a response whose \<^verbatim>\<open>structuredContent\<close> is \<^verbatim>\<open>None\<close>, the tool is
  invoked once, then the test of line 153 raises \<^verbatim>\<open>TypeError\<close>: no Phase-2 request is
  sent, dispatch returns no result and \<^verbatim>\<open>chat_endpoint\<close> answers with status 500. The
  \<^verbatim>\<open>else\<close> of lines 151-155 was written to fall back on the raw response in that case.
\<close>

theorem unstructured_tool_result:
  "running notes_hub ''notes''
   \<and> first_tool_call (request_tools PNone [read_call]) = Some read_call
   \<and> call_tool notes_session ''read'' (PDict []) = Inr unstructured_result
   \<and> structuredContent unstructured_result = IsNone
   \<and> process_query sample_runtime notes_hub (planner PNone [read_call]) ''gpt'' asked =
       ([ListTools ''notes'',
         ModelCall (phase1_request ''gpt'' asked notes_schema),
         CallTool ''notes'' ''read'' (PDict [])],
        Inl (Exn TypeError (''argument of type '' @ [CHR 0x27] @ ''NoneType'' @ [CHR 0x27]
               @ '' is not iterable'')))
   \<and> model_calls (fst (process_query sample_runtime notes_hub (planner PNone [read_call])
        ''gpt'' asked)) = [phase1_request ''gpt'' asked notes_schema]
   \<and> chat_endpoint sample_runtime notes_hub (Inr (planner PNone [read_call], ''gpt'')) asked =
       ([ListTools ''notes'',
         ModelCall (phase1_request ''gpt'' asked notes_schema),
         CallTool ''notes'' ''read'' (PDict [])],
        ServerError (''argument of type '' @ [CHR 0x27] @ ''NoneType'' @ [CHR 0x27]
               @ '' is not iterable''))"
proof -
  have pq: "process_query sample_runtime notes_hub (planner PNone [read_call]) ''gpt'' asked =
       ([ListTools ''notes'',
         ModelCall (phase1_request ''gpt'' asked notes_schema),
         CallTool ''notes'' ''read'' (PDict [])],
        Inl (Exn TypeError (''argument of type '' @ [CHR 0x27] @ ''NoneType'' @ [CHR 0x27]
               @ '' is not iterable'')))"
    using notes_schema_built planner_phase1 [of PNone "[read_call]" "''gpt''" asked notes_schema]
    by (simp add: process_query_phase1 handle_reply_call first_tool_call_request
        notes_read_branch)
  have run: "running notes_hub ''notes''"
    by (simp add: running_def notes_hub_def is_active_def dict_get_def)
  show ?thesis
    using pq run
    by (simp add: first_tool_call_request notes_session_def unstructured_result_def
        chat_endpoint_def model_calls_simps)
qed

text \<open>
  Claim C4, as amended. When the first tool invocation of the Phase-1 reply names a server
  with no Running handle, dispatch invokes no tool and makes no Phase-2 call, whatever the
  argument payload is. If the payload parses as JSON, the result is the text
  \<open>Error: server '<name>' not connected.\<close> with no tool used; a payload that does not
  parse raises the parse error, because line 142 reads the payload before line 146 looks
  the server up.
\<close>

theorem unknown_server:
  assumes "schema_loop self (sessions self) [] = (t, Inr available_tools)"
    and "chat_client (phase1_request model_id messages available_tools) = Inr (msg # others)"
    and "first_tool_call msg = Some tool_call"
    and "parse_tool_name (call_name tool_call) = Inr (server, tname)"
    and "consistent self" and "\<not> running self server"
  shows "tool_invocations (fst (process_query rt self chat_client model_id messages)) = []
         \<and> model_calls (fst (process_query rt self chat_client model_id messages)) =
             [phase1_request model_id messages available_tools]
         \<and> snd (process_query rt self chat_client model_id messages) =
             (case json_loads rt (call_arguments tool_call) of
                Inr tool_args \<Rightarrow>
                  Inr \<lparr>result_text = PStr (''Error: server '' @ [CHR 0x27] @ server
                                            @ [CHR 0x27] @ '' not connected.''),
                       tool_used = None\<rparr>
              | Inl e \<Rightarrow> Inl e)"
proof -
  have none: "map_of (sessions self) server = None"
    using assms(5,6) by (rule consistent_running)
  have t: "model_calls t = []" "tool_invocations t = []"
    using schema_loop_trace [of self "sessions self" "[]"] assms(1) by simp_all
  show ?thesis
    using assms(1,2) handle_reply_call [OF assms(3)] tool_branch_unknown [OF assms(4) none] t
    by (simp add: process_query_phase1 model_calls_simps tool_invocations_simps
        split: sum.splits)
qed

theorem unknown_server_witness:
  "schema_loop hub (sessions hub) [] = ([ListTools ''todayinfo''], Inr hub_schema)
   \<and> planner PNone [ghost_call ''{}''] (phase1_request ''gpt'' asked hub_schema)
       = Inr [request_tools PNone [ghost_call ''{}'']]
   \<and> first_tool_call (request_tools PNone [ghost_call ''{}'']) = Some (ghost_call ''{}'')
   \<and> parse_tool_name (call_name (ghost_call ''{}'')) = Inr (''ghost'', ''tool'')
   \<and> consistent hub \<and> \<not> running hub ''ghost''
   \<and> json_loads sample_runtime (call_arguments (ghost_call ''{}'')) = Inr (PDict [])
   \<and> tool_invocations (fst (process_query sample_runtime hub
        (planner PNone [ghost_call ''{}'']) ''gpt'' asked)) = []
   \<and> model_calls (fst (process_query sample_runtime hub
        (planner PNone [ghost_call ''{}'']) ''gpt'' asked)) = [phase1_request ''gpt'' asked hub_schema]
   \<and> snd (process_query sample_runtime hub (planner PNone [ghost_call ''{}'']) ''gpt'' asked) =
       Inr \<lparr>result_text = PStr (''Error: server '' @ [CHR 0x27] @ ''ghost'' @ [CHR 0x27]
                                 @ '' not connected.''),
            tool_used = None\<rparr>"
proof -
  have 7: "json_loads sample_runtime (call_arguments (ghost_call ''{}'')) = Inr (PDict [])"
    by (simp add: ghost_call_def invoke_def sample_runtime_def)
  from unknown_server [where chat_client = "planner PNone [ghost_call ''{}'']"
      and rt = sample_runtime,
      OF hub_schema_built planner_phase1 first_tool_call_request parse_ghost_call hub_consistent
        hub_ghost]
  show ?thesis
    using hub_schema_built planner_phase1 first_tool_call_request parse_ghost_call hub_consistent
      hub_ghost 7
    by simp
qed

text \<open>
  Claim C4 as stated fails: for a server that is not connected and the payload \<^verbatim>\<open>{\<close>,
  dispatch raises \<^verbatim>\<open>JSONDecodeError\<close> instead of returning the error result, and
  \<^verbatim>\<open>chat_endpoint\<close> answers with status 500.
\<close>

theorem unknown_server_bad_payload_counterexample:
  "first_tool_call (request_tools PNone [ghost_call ''{'']) = Some (ghost_call ''{'')
   \<and> parse_tool_name (call_name (ghost_call ''{'')) = Inr (''ghost'', ''tool'')
   \<and> \<not> running hub ''ghost''
   \<and> process_query sample_runtime hub (planner PNone [ghost_call ''{'']) ''gpt'' asked =
       ([ListTools ''todayinfo'', ModelCall (phase1_request ''gpt'' asked hub_schema)],
        Inl (Exn JSONDecodeError
          ''Expecting property name enclosed in double quotes: line 1 column 2 (char 1)''))
   \<and> chat_endpoint sample_runtime hub (Inr (planner PNone [ghost_call ''{''], ''gpt'')) asked =
       ([ListTools ''todayinfo'', ModelCall (phase1_request ''gpt'' asked hub_schema)],
        ServerError
          ''Expecting property name enclosed in double quotes: line 1 column 2 (char 1)'')"
proof -
  have loads: "json_loads sample_runtime (call_arguments (ghost_call ''{'')) =
      Inl (Exn JSONDecodeError
          ''Expecting property name enclosed in double quotes: line 1 column 2 (char 1)'')"
    by (simp add: ghost_call_def invoke_def sample_runtime_def)
  have tb: "tool_branch sample_runtime hub (planner PNone [ghost_call ''{'']) ''gpt'' asked
        (ghost_call ''{'') =
      ([], Inl (Exn JSONDecodeError
          ''Expecting property name enclosed in double quotes: line 1 column 2 (char 1)''))"
    by (simp add: tool_branch_def parse_ghost_call loads bind_t_pure_Inr bind_t_pure_Inl)
  have pq: "process_query sample_runtime hub (planner PNone [ghost_call ''{'']) ''gpt'' asked =
       ([ListTools ''todayinfo'', ModelCall (phase1_request ''gpt'' asked hub_schema)],
        Inl (Exn JSONDecodeError
          ''Expecting property name enclosed in double quotes: line 1 column 2 (char 1)''))"
    using hub_schema_built planner_phase1 [of PNone "[ghost_call ''{'']" "''gpt''" asked hub_schema]
    by (simp add: process_query_phase1 handle_reply_call first_tool_call_request tb)
  show ?thesis
    using pq by (simp add: first_tool_call_request parse_ghost_call hub_ghost chat_endpoint_def)
qed

text \<open>
  Claim C6. When the Phase-1 reply holds several tool invocation requests, dispatch takes
  the first: what it does is what it does for that one request alone, and the only tool it
  can invoke is the one the first request names.
\<close>

theorem only_first_tool_call:
  assumes "schema_loop self (sessions self) [] = (t, Inr available_tools)"
    and "chat_client (phase1_request model_id messages available_tools) = Inr (msg # others)"
    and "tool_calls msg = Some (tool_call # further)"
  shows "process_query rt self chat_client model_id messages =
           (t @ ModelCall (phase1_request model_id messages available_tools)
              # fst (tool_branch rt self chat_client model_id messages tool_call),
            snd (tool_branch rt self chat_client model_id messages tool_call))
         \<and> handle_reply rt self chat_client model_id messages msg =
             handle_reply rt self chat_client model_id messages
               (msg\<lparr>tool_calls := Some [tool_call]\<rparr>)
         \<and> (tool_invocations (fst (process_query rt self chat_client model_id messages)) = []
             \<or> (\<exists>server tname args.
                   parse_tool_name (call_name tool_call) = Inr (server, tname)
                   \<and> json_loads rt (call_arguments tool_call) = Inr args
                   \<and> tool_invocations (fst (process_query rt self chat_client model_id messages))
                       = [(server, tname, args)]))"
proof -
  let ?tb = "tool_branch rt self chat_client model_id messages tool_call"
  have first: "first_tool_call msg = Some tool_call"
    using assms(3) by (simp add: first_tool_call_def)
  have pq: "process_query rt self chat_client model_id messages =
           (t @ ModelCall (phase1_request model_id messages available_tools) # fst ?tb, snd ?tb)"
    using assms(1,2) handle_reply_call [OF first] by (simp add: process_query_phase1)
  have same: "handle_reply rt self chat_client model_id messages msg =
             handle_reply rt self chat_client model_id messages
               (msg\<lparr>tool_calls := Some [tool_call]\<rparr>)"
    using first by (simp add: handle_reply_def first_tool_call_def)
  have t: "tool_invocations t = []"
    using schema_loop_trace [of self "sessions self" "[]"] assms(1) by simp
  have inv: "tool_invocations (fst (process_query rt self chat_client model_id messages)) =
          tool_invocations (fst ?tb)"
    using pq t by (simp add: tool_invocations_simps)
  show ?thesis
    using pq same tool_branch_invocations [of rt self chat_client model_id messages tool_call]
    unfolding inv by blast
qed

theorem only_first_tool_call_witness:
  "schema_loop hub (sessions hub) [] = ([ListTools ''todayinfo''], Inr hub_schema)
   \<and> planner PNone [date_call, weather_call] (phase1_request ''gpt'' asked hub_schema)
       = Inr [request_tools PNone [date_call, weather_call]]
   \<and> tool_calls (request_tools PNone [date_call, weather_call])
       = Some (date_call # [weather_call])
   \<and> process_query sample_runtime hub (planner PNone [date_call, weather_call]) ''gpt'' asked =
       ([ListTools ''todayinfo'',
         ModelCall (phase1_request ''gpt'' asked hub_schema),
         CallTool ''todayinfo'' ''get_date'' (PDict []),
         ModelCall (phase2_request ''gpt'' sample_prompt)],
        Inr \<lparr>result_text = PStr ''It is noon.'', tool_used = Some ''todayinfo:get_date''\<rparr>)
   \<and> tool_invocations (fst (process_query sample_runtime hub
        (planner PNone [date_call, weather_call]) ''gpt'' asked))
       = [(''todayinfo'', ''get_date'', PDict [])]"
proof -
  have 3: "tool_calls (request_tools PNone [date_call, weather_call])
       = Some (date_call # [weather_call])"
    by (simp add: request_tools_def)
  from only_first_tool_call [where chat_client = "planner PNone [date_call, weather_call]"
      and rt = sample_runtime, OF hub_schema_built planner_phase1 3]
  show ?thesis
    using hub_schema_built planner_phase1 3
    by (simp add: hub_date_branch tool_invocations_simps)
qed





subsection \<open>Tool enumeration\<close>

lemma list_loop_abort:
  assumes "is_active self name" and "list_tools session = Inl e"
    and "\<forall>(n, s) \<in> set before. is_active self n \<longrightarrow> (\<exists>ts. list_tools s = Inr ts)"
  shows "list_loop self (before @ (name, session) # rest) acc =
           (map ListTools (filter (is_active self) (map fst before)) @ [ListTools name], Inl e)"
  using assms(3)
proof (induction before arbitrary: acc)
  case Nil
  from assms(1,2) show ?case by (simp add: bind_t_perform_Inl)
next
  case (Cons p before)
  obtain n s where p: "p = (n, s)" by (cases p)
  show ?case
  proof (cases "is_active self n")
    case False
    with p Cons show ?thesis by simp
  next
    case True
    with p Cons.prems obtain ts where "list_tools s = Inr ts" by auto
    with p True Cons show ?thesis by (simp add: bind_t_perform_Inr)
  qed
qed

lemma schema_loop_abort:
  assumes "is_active self name" and "list_tools session = Inl e"
    and "\<forall>(n, s) \<in> set before. is_active self n \<longrightarrow> (\<exists>ts. list_tools s = Inr ts)"
  shows "schema_loop self (before @ (name, session) # rest) acc =
           (map ListTools (filter (is_active self) (map fst before)) @ [ListTools name], Inl e)"
  using assms(3)
proof (induction before arbitrary: acc)
  case Nil
  from assms(1,2) show ?case by (simp add: bind_t_perform_Inl)
next
  case (Cons p before)
  obtain n s where p: "p = (n, s)" by (cases p)
  show ?case
  proof (cases "is_active self n")
    case False
    with p Cons show ?thesis by simp
  next
    case True
    with p Cons.prems obtain ts where "list_tools s = Inr ts" by auto
    with p True Cons show ?thesis by (simp add: bind_t_perform_Inr)
  qed
qed

text \<open>
  Claim C5, as amended. During tool enumeration a catalog query that fails on a Running
  handle aborts the enumeration: \<^verbatim>\<open>list_all_tools\<close> and the schema build of
  \<^verbatim>\<open>process_query\<close> raise the error of the first Running handle whose query fails, the
  handles after it are not queried, no tool list is returned, the model is not called, and
  \<^verbatim>\<open>chat_endpoint\<close> answers with status 500.
\<close>

theorem catalog_failure_aborts:
  assumes "sessions self = before @ (name, session) # rest"
    and "is_active self name" and "list_tools session = Inl e"
    and "\<forall>(n, s) \<in> set before. is_active self n \<longrightarrow> (\<exists>ts. list_tools s = Inr ts)"
  shows "list_all_tools self =
           (map ListTools (filter (is_active self) (map fst before)) @ [ListTools name], Inl e)
         \<and> process_query rt self chat_client model_id messages =
           (map ListTools (filter (is_active self) (map fst before)) @ [ListTools name], Inl e)
         \<and> chat_endpoint rt self (Inr (chat_client, model_id)) messages =
           (map ListTools (filter (is_active self) (map fst before)) @ [ListTools name],
            ServerError (str_exn e))"
proof -
  have l: "list_all_tools self =
           (map ListTools (filter (is_active self) (map fst before)) @ [ListTools name], Inl e)"
    unfolding list_all_tools_def assms(1) using assms(2-4) by (rule list_loop_abort)
  have "schema_loop self (sessions self) [] =
           (map ListTools (filter (is_active self) (map fst before)) @ [ListTools name], Inl e)"
    unfolding assms(1) using assms(2-4) by (rule schema_loop_abort)
  then have pq: "process_query rt self chat_client model_id messages =
           (map ListTools (filter (is_active self) (map fst before)) @ [ListTools name], Inl e)"
    by (simp add: process_query_def bind_t_Inl)
  from l pq show ?thesis by (simp add: chat_endpoint_def)
qed

lemma degraded_active: "is_active degraded_hub n = (n \<in> {''todayinfo'', ''chatmemory'', ''calendar''})"
  by (simp add: is_active_def degraded_hub_def dict_get_def)

theorem catalog_failure_aborts_witness:
  "sessions degraded_hub =
     [(''todayinfo'', todayinfo_session)] @ (''chatmemory'', closed_session)
       # [(''calendar'', todayinfo_session)]
   \<and> is_active degraded_hub ''chatmemory''
   \<and> list_tools closed_session = Inl (Exn ExternalError ''Connection closed'')
   \<and> is_active degraded_hub ''todayinfo''
   \<and> list_tools todayinfo_session = Inr [get_date_tool]
   \<and> list_all_tools degraded_hub =
       ([ListTools ''todayinfo'', ListTools ''chatmemory''],
        Inl (Exn ExternalError ''Connection closed''))
   \<and> process_query sample_runtime degraded_hub (planner PNone []) ''gpt'' asked =
       ([ListTools ''todayinfo'', ListTools ''chatmemory''],
        Inl (Exn ExternalError ''Connection closed''))
   \<and> chat_endpoint sample_runtime degraded_hub (Inr (planner PNone [], ''gpt'')) asked =
       ([ListTools ''todayinfo'', ListTools ''chatmemory''], ServerError ''Connection closed'')"
proof -
  have 1: "sessions degraded_hub =
     [(''todayinfo'', todayinfo_session)] @ (''chatmemory'', closed_session)
       # [(''calendar'', todayinfo_session)]"
    by (simp add: degraded_hub_def)
  have 2: "is_active degraded_hub ''chatmemory''" by (simp add: degraded_active)
  have 3: "list_tools closed_session = Inl (Exn ExternalError ''Connection closed'')"
    by (simp add: closed_session_def)
  have 4: "\<forall>(n, s) \<in> set [(''todayinfo'', todayinfo_session)].
         is_active degraded_hub n \<longrightarrow> (\<exists>ts. list_tools s = Inr ts)"
    by (simp add: todayinfo_session_def)
  from catalog_failure_aborts [where chat_client = "planner PNone []" and rt = sample_runtime
      and model_id = "''gpt''" and messages = asked, OF 1 2 3 4]
  show ?thesis
    using 1 2 3 by (simp add: degraded_active todayinfo_session_def)
qed

text \<open>
  Claim C5 as stated fails: with three Running handles of which the second cannot be
  queried, both enumerations raise, and the tools of the first and of the third handle do
  not appear in any result.
\<close>

theorem catalog_failure_counterexample:
  "running degraded_hub ''todayinfo''
   \<and> list_tools todayinfo_session = Inr [get_date_tool]
   \<and> running degraded_hub ''chatmemory''
   \<and> list_tools closed_session = Inl (Exn ExternalError ''Connection closed'')
   \<and> list_all_tools degraded_hub =
       ([ListTools ''todayinfo'', ListTools ''chatmemory''],
        Inl (Exn ExternalError ''Connection closed''))
   \<and> process_query sample_runtime degraded_hub (planner PNone []) ''gpt'' asked =
       ([ListTools ''todayinfo'', ListTools ''chatmemory''],
        Inl (Exn ExternalError ''Connection closed''))"
  by (simp add: running_def degraded_active list_all_tools_def process_query_def
      bind_t_perform_Inr bind_t_perform_Inl bind_t_Inl degraded_hub_def [THEN arg_cong [of _ _ sessions]]
      todayinfo_session_def closed_session_def)


subsection \<open>No pattern of the source matches the empty string\<close>

lemma match_here_le: "match_here r s = Some t \<Longrightarrow> length t \<le> length s"
proof (induction r s arbitrary: t rule: match_here.induct)
  case (5 p r c cs)
  then show ?case by (fastforce split: if_splits option.splits)
next
  case (7 p r c cs)
  then show ?case by (fastforce split: if_splits option.splits)
next
  case (9 p r c cs)
  then show ?case by (fastforce split: if_splits option.splits)
qed (auto split: if_splits)

lemma match_here_shorter:
  "\<exists>p. One p \<in> set r \<Longrightarrow> match_here r s = Some t \<Longrightarrow> length t < length s"
proof (induction r s arbitrary: t rule: match_here.induct)
  case (3 p r c cs)
  then have "match_here r cs = Some t" by (simp split: if_splits)
  from match_here_le [OF this] show ?case by simp
next
  case (5 p r c cs)
  then show ?case by (fastforce split: if_splits option.splits)
next
  case (7 p r c cs)
  then show ?case by (fastforce split: if_splits option.splits)
next
  case (9 p r c cs)
  then show ?case by (fastforce split: if_splits option.splits)
qed auto

lemma patterns_mandatory: "\<forall>r \<in> set (blank_lines # patterns). \<exists>p. One p \<in> set r"
  by (simp add: patterns_def blank_lines_def lit_def ilit_def) blast

subsection \<open>The response normalizer\<close>

text \<open>
  Claim C8. For a mapping-shaped message the normalizer takes the reasoning from
  \<^verbatim>\<open>reasoning_content\<close> and the display text from \<^verbatim>\<open>content\<close>; the payload it returns holds
  the display text after \<^verbatim>\<open>remove_reasoning_thoughts\<close>, applied in every case, and does
  not depend on the reasoning. For the content \<open>hello\<close> with the reasoning \<open>because\<close> the
  text returned is exactly \<open>hello\<close>, also when the mapping is the Phase-1 reply of a chat
  request.
\<close>

theorem normalize_mapping:
  "extract_fields (PDict d) =
     Inr (dict_get d ''content'' (PStr []), dict_get d ''reasoning_content'' PNone)
   \<and> normalize_response \<lparr>result_text = PDict d, tool_used = u\<rparr> =
       ChatReply (remove_reasoning_thoughts (dict_get d ''content'' (PStr []))) u
   \<and> normalize_response \<lparr>result_text = PDict (AList.update ''reasoning_content'' r d), tool_used = u\<rparr> =
       normalize_response \<lparr>result_text = PDict d, tool_used = u\<rparr>
   \<and> normalize_response \<lparr>result_text = PDict [(''content'', PStr ''hello''),
                                       (''reasoning_content'', PStr ''because'')],
                 tool_used = u\<rparr> = ChatReply (PStr ''hello'') u
   \<and> chat_endpoint sample_runtime hub
        (Inr (scripted_client structured_reply (say ''unused''), ''gpt'')) asked =
       ([ListTools ''todayinfo'', ModelCall (phase1_request ''gpt'' asked hub_schema)],
        ChatReply (PStr ''hello'') None)"
proof -
  have a: "extract_fields (PDict d) =
     Inr (dict_get d ''content'' (PStr []), dict_get d ''reasoning_content'' PNone)" for d
    by (simp add: extract_fields_def)
  have b: "normalize_response \<lparr>result_text = PDict d, tool_used = u\<rparr> =
       ChatReply (remove_reasoning_thoughts (dict_get d ''content'' (PStr []))) u" for d u
    by (simp add: normalize_response_def a)
  have c: "dict_get (AList.update ''reasoning_content'' r d) ''content'' (PStr []) =
       dict_get d ''content'' (PStr [])"
    by (simp add: dict_get_def update_conv')
  have hello: "normalize_response \<lparr>result_text = PDict [(''content'', PStr ''hello''),
                                       (''reasoning_content'', PStr ''because'')],
                 tool_used = u\<rparr> = ChatReply (PStr ''hello'') u" for u
    by (simp add: b dict_get_def clean_hello)
  have pq: "process_query sample_runtime hub (scripted_client structured_reply (say ''unused''))
       ''gpt'' asked =
       ([ListTools ''todayinfo'', ModelCall (phase1_request ''gpt'' asked hub_schema)],
        Inr \<lparr>result_text = PDict [(''content'', PStr ''hello''),
                                  (''reasoning_content'', PStr ''because'')],
             tool_used = None\<rparr>)"
    using hub_schema_built
    by (simp add: process_query_phase1 [where msg = structured_reply and others = "[]"]
        scripted_client_def phase1_request_def handle_reply_def structured_reply_def
        first_tool_call_def ret_def)
  show ?thesis
    using a b c hello pq by (simp add: chat_endpoint_def)
qed

subsection \<open>Loading a configuration\<close>

lemma update_fresh: "k \<notin> set (map fst al) \<Longrightarrow> AList.update k v al = al @ [(k, v)]"
  by (induction al) auto

lemma try_start_Inl:
  assumes "try_start rt mc s = Inl e"
  shows "try_start rt mc' s = Inl e"
  using assms
  by (auto simp: try_start_def bind_e_def connect_to_server_def split: sum.splits)

lemma connect_running:
  assumes "connect_to_server rt mc name command args cwd = Inr connected"
  shows "running connected name \<and> (\<forall>n. running mc n \<longrightarrow> running connected n)"
proof -
  from assms obtain session where
    c: "connected = mc\<lparr>sessions := AList.update name session (sessions mc),
                        active_servers := AList.update name (PBool True) (active_servers mc)\<rparr>"
    by (auto simp: connect_to_server_def split: sum.splits)
  have "running connected name"
    by (simp add: c running_def is_active_def dict_get_def update_conv')
  moreover have "running connected n" if "running mc n" for n
    using that by (cases "n = name")
      (simp_all add: c running_def is_active_def dict_get_def update_conv')
  ultimately show ?thesis by blast
qed

lemma try_start_Inr:
  assumes "try_start rt mc s = Inr (connected, name, entry)"
  shows "srv_name s = Some name
         \<and> (\<exists>connected'. try_start rt mc' s = Inr (connected', name, entry))
         \<and> (\<exists>cwd. entry = running_entry cwd)
         \<and> running connected name
         \<and> (\<forall>n. running mc n \<longrightarrow> running connected n)"
proof -
  from assms obtain command args cwd where
    fields: "srv_name s = Some name" "srv_command s = Some command" "srv_args s = Some args"
      "srv_cwd s = Some cwd"
    and con: "connect_to_server rt mc name command args cwd = Inr connected"
    and entry: "entry = running_entry cwd"
    by (auto simp: try_start_def bind_e_def key_def split: sum.splits option.splits)
  from con obtain session where "launch rt name command args cwd = Inr session"
    by (auto simp: connect_to_server_def split: sum.splits)
  with fields entry have "\<exists>connected'. try_start rt mc' s = Inr (connected', name, entry)"
    by (simp add: try_start_def bind_e_def key_def connect_to_server_def)
  with fields entry connect_running [OF con] show ?thesis by blast
qed

lemma entry_of_failure:
  assumes "try_start rt mc s = Inl e"
  shows "fails_to_start rt s \<and> report_entry rt s = failed_entry e"
  using try_start_Inl [OF assms, of "\<lparr>sessions = [], active_servers = []\<rparr>"]
  by (simp add: fails_to_start_def report_entry_def)

lemma entry_of_success:
  assumes "try_start rt mc s = Inr (connected, name, entry)"
  shows "\<not> fails_to_start rt s \<and> report_entry rt s = entry"
proof -
  from try_start_Inr [OF assms, of "\<lparr>sessions = [], active_servers = []\<rparr>"]
  obtain c where "try_start rt \<lparr>sessions = [], active_servers = []\<rparr> s = Inr (c, name, entry)"
    by blast
  then show ?thesis by (simp add: fails_to_start_def report_entry_def)
qed

lemma entry_kind:
  "is_failed_entry (report_entry rt s) = fails_to_start rt s"
  "is_running_entry (report_entry rt s) = (\<not> fails_to_start rt s)"
proof -
  let ?start = "try_start rt \<lparr>sessions = [], active_servers = []\<rparr> s"
  have "is_failed_entry (report_entry rt s) = fails_to_start rt s
        \<and> is_running_entry (report_entry rt s) = (\<not> fails_to_start rt s)"
  proof (cases ?start)
    case (Inl e)
    then show ?thesis
      by (simp add: fails_to_start_def report_entry_def failed_entry_def is_failed_entry_def
          is_running_entry_def)
  next
    case (Inr started)
    obtain c n entry where "started = (c, n, entry)" by (cases started)
    with Inr have ts: "?start = Inr (c, n, entry)" by simp
    from try_start_Inr [OF ts] obtain cwd where "entry = running_entry cwd" by blast
    with ts show ?thesis
      by (simp add: fails_to_start_def report_entry_def running_entry_def is_failed_entry_def
          is_running_entry_def)
  qed
  then show "is_failed_entry (report_entry rt s) = fails_to_start rt s"
    and "is_running_entry (report_entry rt s) = (\<not> fails_to_start rt s)" by simp_all
qed

lemma start_servers_report:
  assumes "\<forall>s \<in> set servers. srv_name s \<noteq> None"
    and "distinct (map srv_name servers)"
    and "\<forall>s \<in> set servers. the (srv_name s) \<notin> set (map fst active)"
  shows "snd (start_servers rt servers mc active) = Inr (active @ expected_report rt servers)"
  using assms
proof (induction servers arbitrary: mc active)
  case Nil
  show ?case by (simp add: expected_report_def)
next
  case (Cons s servers)
  from Cons.prems(1) obtain name where name: "srv_name s = Some name" by auto
  from Cons.prems(3) name have fresh: "name \<notin> set (map fst active)" by simp
  have rest: "\<forall>x \<in> set servers. the (srv_name x) \<notin> set (map fst (active @ [(name, v)]))" for v
  proof
    fix x assume x: "x \<in> set servers"
    with Cons.prems(1) obtain m where m: "srv_name x = Some m" by auto
    from Cons.prems(2) x name m have "m \<noteq> name" by force
    moreover from Cons.prems(3) x m have "m \<notin> set (map fst active)" by force
    ultimately show "the (srv_name x) \<notin> set (map fst (active @ [(name, v)]))"
      using m by simp
  qed
  have IH: "snd (start_servers rt servers mc' (active @ [(name, v)])) =
        Inr ((active @ [(name, v)]) @ expected_report rt servers)" for mc' v
    using Cons.prems(1,2) rest [of v] by (intro Cons.IH) auto
  show ?case
  proof (cases "try_start rt mc s")
    case (Inl e)
    with name fresh IH [of mc "failed_entry e"] entry_of_failure [OF Inl]
    show ?thesis by (simp add: key_def update_fresh expected_report_def)
  next
    case (Inr started)
    obtain c n entry where st: "started = (c, n, entry)" by (cases started)
    with Inr try_start_Inr [of rt mc s c n entry] name have n: "n = name" by simp
    from Inr st n name fresh IH [of c entry] entry_of_success [of rt mc s c n entry]
    show ?thesis by (simp add: update_fresh expected_report_def)
  qed
qed

lemma start_servers_keeps:
  assumes "running mc n"
  shows "running (fst (start_servers rt servers mc active)) n"
  using assms
proof (induction servers arbitrary: mc active)
  case Nil
  then show ?case by simp
next
  case (Cons s servers)
  show ?case
  proof (cases "try_start rt mc s")
    case (Inl e)
    with Cons show ?thesis by (simp split: sum.splits)
  next
    case (Inr started)
    obtain c m entry where st: "started = (c, m, entry)" by (cases started)
    with Inr try_start_Inr [of rt mc s c m entry] Cons.prems have "running c n" by simp
    with Inr st Cons.IH [of c] show ?thesis by simp
  qed
qed

lemma start_servers_started:
  assumes "\<forall>s \<in> set servers. srv_name s \<noteq> None"
    and "s \<in> set servers" and "\<not> fails_to_start rt s"
  shows "running (fst (start_servers rt servers mc active)) (the (srv_name s))"
  using assms
proof (induction servers arbitrary: mc active)
  case Nil
  then show ?case by simp
next
  case (Cons x servers)
  from Cons.prems(1) obtain name where name: "srv_name x = Some name" by auto
  show ?case
  proof (cases "try_start rt mc x")
    case (Inl e)
    with entry_of_failure [OF Inl] Cons.prems have "s \<in> set servers" by auto
    with Inl name Cons show ?thesis by (simp add: key_def)
  next
    case (Inr started)
    obtain c m entry where st: "started = (c, m, entry)" by (cases started)
    from Inr st try_start_Inr [of rt mc x c m entry] name
    have m: "m = name" and run: "running c name" by simp_all
    show ?thesis
    proof (cases "s = x")
      case True
      with run name have "running c (the (srv_name s))" by simp
      then have "running (fst (start_servers rt servers c (AList.update m entry active)))
          (the (srv_name s))" by (rule start_servers_keeps)
      with Inr st show ?thesis by simp
    next
      case False
      with Cons.prems have "s \<in> set servers" by simp
      with Inr st Cons show ?thesis by simp
    qed
  qed
qed

text \<open>The invariant assumed of the client holds at the start and after every upload.\<close>

lemma consistent_initial: "consistent \<lparr>sessions = [], active_servers = []\<rparr>"
  by (simp add: consistent_def)

lemma try_start_consistent:
  assumes "consistent mc" and "try_start rt mc s = Inr (connected, name, entry)"
  shows "consistent connected"
proof -
  from assms(2) obtain command args cwd where
    "connect_to_server rt mc name command args cwd = Inr connected"
    by (auto simp: try_start_def bind_e_def key_def split: sum.splits option.splits)
  with assms(1) show ?thesis by (rule consistent_connect)
qed

lemma start_servers_consistent:
  assumes "consistent mc"
  shows "consistent (fst (start_servers rt servers mc active))"
  using assms
proof (induction servers arbitrary: mc active)
  case Nil
  then show ?case by simp
next
  case (Cons s servers)
  show ?case
  proof (cases "try_start rt mc s")
    case (Inl e)
    with Cons show ?thesis by (simp split: sum.splits)
  next
    case (Inr started)
    obtain c n entry where st: "started = (c, n, entry)" by (cases started)
    with Inr Cons.prems have "consistent c" by (simp add: try_start_consistent)
    with Inr st Cons.IH [of c] show ?thesis by simp
  qed
qed

lemma upload_config_consistent:
  assumes "consistent mc"
  shows "consistent (fst (upload_config rt mc config_data))"
proof (cases config_data)
  case EmptyDocument
  with assms show ?thesis by (simp add: upload_config_def)
next
  case (Mapping entry)
  let ?servers = "case entry of None \<Rightarrow> [] | Some servers \<Rightarrow> servers"
  have "fst (upload_config rt mc config_data) = fst (start_servers rt ?servers mc [])"
    using Mapping by (simp add: upload_config_def split: prod.splits sum.splits)
  with assms show ?thesis by (simp add: start_servers_consistent)
qed

lemmas entry_defs = todayinfo_entry_def mistyped_entry_def incomplete_entry_def

lemma sample_starts:
  "\<not> fails_to_start sample_runtime todayinfo_entry"
  "fails_to_start sample_runtime mistyped_entry"
  "fails_to_start sample_runtime incomplete_entry"
  by (simp_all add: fails_to_start_def try_start_def bind_e_def key_def connect_to_server_def
      sample_runtime_def entry_defs)

lemma sample_expected: "expected_report sample_runtime sample_servers = sample_report"
  by (simp add: expected_report_def sample_servers_def report_entry_def try_start_def bind_e_def
      key_def connect_to_server_def sample_runtime_def entry_defs running_entry_def
      failed_entry_def sample_report_def)

text \<open>
  Claim C1. Loading a configuration has partial-failure semantics. For a list of \<open>N\<close>
  entries with distinct names, of which \<open>K\<close> fail to start, \<^verbatim>\<open>upload_config\<close> answers with
  a report that has one entry per name, \<open>N\<close> keys in all, \<open>K\<close> of them failed entries (each
  with the text of its own exception) and \<open>N - K\<close> running entries; the entry of each
  server is the one its own start attempt leads to, whatever happened to the entries
  before it, and every server that started is Running in the client afterwards.
\<close>

theorem batch_load:
  assumes "\<forall>s \<in> set servers. srv_name s \<noteq> None"
    and "distinct (map srv_name servers)"
  shows "snd (upload_config rt mcp_client (Mapping (Some servers))) =
           ServerReport (expected_report rt servers)
         \<and> length (expected_report rt servers) = length servers
         \<and> distinct (map fst (expected_report rt servers))
         \<and> length (filter (is_failed_entry \<circ> snd) (expected_report rt servers)) =
             length (filter (fails_to_start rt) servers)
         \<and> length (filter (is_running_entry \<circ> snd) (expected_report rt servers)) =
             length servers - length (filter (fails_to_start rt) servers)
         \<and> (\<forall>s \<in> set servers.
               map_of (expected_report rt servers) (the (srv_name s)) = Some (report_entry rt s))
         \<and> (\<forall>s \<in> set servers. \<not> fails_to_start rt s \<longrightarrow>
               running (fst (upload_config rt mcp_client (Mapping (Some servers))))
                 (the (srv_name s)))"
proof -
  obtain client outcome where run: "start_servers rt servers mcp_client [] = (client, outcome)"
    by (cases "start_servers rt servers mcp_client []")
  with start_servers_report [OF assms, of "[]" rt mcp_client]
  have rep: "outcome = Inr (expected_report rt servers)" by simp
  have 1: "snd (upload_config rt mcp_client (Mapping (Some servers))) =
           ServerReport (expected_report rt servers)"
    by (simp add: upload_config_def run rep)
  have fstu: "fst (upload_config rt mcp_client (Mapping (Some servers))) =
          fst (start_servers rt servers mcp_client [])"
    by (simp add: upload_config_def run rep)
  have names: "map fst (expected_report rt servers) = map (the \<circ> srv_name) servers"
    by (simp add: expected_report_def comp_def)
  have inj: "inj_on the (set (map srv_name servers))"
  proof (rule inj_onI)
    fix a b :: "string option"
    assume "a \<in> set (map srv_name servers)" "b \<in> set (map srv_name servers)" "the a = the b"
    with assms(1) show "a = b" by (cases a; cases b) auto
  qed
  have 3: "distinct (map fst (expected_report rt servers))"
    unfolding names using assms(2) inj by (simp add: distinct_map flip: map_map)
  have 4: "length (filter (is_failed_entry \<circ> snd) (expected_report rt servers)) =
             length (filter (fails_to_start rt) servers)"
    by (simp add: expected_report_def filter_map comp_def entry_kind)
  have "length (filter (is_running_entry \<circ> snd) (expected_report rt servers)) =
             length (filter (\<lambda>s. \<not> fails_to_start rt s) servers)"
    by (simp add: expected_report_def filter_map comp_def entry_kind)
  then have 5: "length (filter (is_running_entry \<circ> snd) (expected_report rt servers)) =
             length servers - length (filter (fails_to_start rt) servers)"
    using sum_length_filter_compl [of "fails_to_start rt" servers] by simp
  have 6: "map_of (expected_report rt servers) (the (srv_name s)) = Some (report_entry rt s)"
    if "s \<in> set servers" for s
  proof -
    from that have "(the (srv_name s), report_entry rt s) \<in> set (expected_report rt servers)"
      by (auto simp: expected_report_def)
    with 3 show ?thesis by simp
  qed
  have 7: "running (fst (upload_config rt mcp_client (Mapping (Some servers))))
                 (the (srv_name s))"
    if "s \<in> set servers" "\<not> fails_to_start rt s" for s
    unfolding fstu using assms(1) that by (rule start_servers_started)
  from 1 3 4 5 6 7 show ?thesis by (simp add: expected_report_def)
qed

theorem batch_load_witness:
  "map srv_name sample_servers = [Some ''todayinfo'', Some ''chatmemory'', Some ''weather'']
   \<and> distinct (map srv_name sample_servers)
   \<and> length sample_servers = 3
   \<and> length (filter (fails_to_start sample_runtime) sample_servers) = 2
   \<and> snd (upload_config sample_runtime no_servers (Mapping (Some sample_servers))) =
       ServerReport sample_report
   \<and> length sample_report = 3
   \<and> distinct (map fst sample_report)
   \<and> length (filter (is_failed_entry \<circ> snd) sample_report) = 2
   \<and> length (filter (is_running_entry \<circ> snd) sample_report) = 1
   \<and> running (fst (upload_config sample_runtime no_servers (Mapping (Some sample_servers))))
        ''todayinfo''"
proof -
  have 1: "\<forall>s \<in> set sample_servers. srv_name s \<noteq> None"
    by (simp add: sample_servers_def entry_defs)
  have 2: "distinct (map srv_name sample_servers)"
    by (simp add: sample_servers_def entry_defs)
  have k: "length (filter (fails_to_start sample_runtime) sample_servers) = 2"
    by (simp add: sample_servers_def sample_starts)
  have n: "length sample_servers = 3" by (simp add: sample_servers_def)
  have first: "todayinfo_entry \<in> set sample_servers" "the (srv_name todayinfo_entry) = ''todayinfo''"
    by (simp_all add: sample_servers_def todayinfo_entry_def)
  have names: "map srv_name sample_servers =
      [Some ''todayinfo'', Some ''chatmemory'', Some ''weather'']"
    by (simp add: sample_servers_def entry_defs)
  from batch_load [OF 1 2, of sample_runtime no_servers]
  show ?thesis
    using names 2 k n first sample_starts(1) by (auto simp: sample_expected)
qed

end
